theory Spec2Isabelle
  imports Main "HOL-Library.Sublist" "HOL-Library.List_Lexorder"
begin

section \<open>Python text\<close>

text \<open>
  A Python \<^verbatim>\<open>str\<close> is a sequence of Unicode code points; \<^verbatim>\<open>len\<close> counts code points.
  The CJK sentence terminators of \<^verbatim>\<open>generate_descriptions\<close> lie outside the 8-bit
  \<^typ>\<open>char\<close>, so text is a list of code points. ASCII literals are written through \<open>u\<close>.
\<close>

type_synonym pystr = "nat list"

definition u :: "string \<Rightarrow> pystr" where
  "u s = map of_char s"

text \<open>
  The Unicode tables of the Python runtime are not part of the repository. Their ASCII
  part is written out; outside ASCII they are a parameter of the model:
  \<^item> \<open>lower_full\<close>: the lower-case mapping of a code point, which may yield several code
    points and may depend on the text before (nearest code point first) and after it;
  \<^item> \<open>alnum\<close>: whether a code point is alphanumeric (\<^verbatim>\<open>\w\<close> of \<^verbatim>\<open>re\<close>);
  \<^item> \<open>space\<close>: whether a code point is white space (\<^verbatim>\<open>str.strip\<close>).
\<close>

record unicode_db =
  lower_full :: "pystr \<Rightarrow> nat \<Rightarrow> pystr \<Rightarrow> pystr"
  alnum :: "nat \<Rightarrow> bool"
  space :: "nat \<Rightarrow> bool"

text \<open>
  A database in which no code point outside ASCII is a letter, a digit or white space, and
  lower-casing leaves such code points alone. It serves to run the model on ASCII text,
  where the database is not consulted.
\<close>

definition ascii_only_db :: unicode_db where
  "ascii_only_db = \<lparr>lower_full = (\<lambda>pre c post. [c]), alnum = (\<lambda>c. False), space = (\<lambda>c. False)\<rparr>"

definition lower_cp :: "unicode_db \<Rightarrow> pystr \<Rightarrow> nat \<Rightarrow> pystr \<Rightarrow> pystr" where
  "lower_cp db pre c post =
     (if c < 128 then [if 65 \<le> c \<and> c \<le> 90 then c + 32 else c]
      else lower_full db pre c post)"

fun lower_from :: "unicode_db \<Rightarrow> pystr \<Rightarrow> pystr \<Rightarrow> pystr" where
  "lower_from db pre [] = []"
| "lower_from db pre (c # cs) = lower_cp db pre c cs @ lower_from db (c # pre) cs"

definition py_lower :: "unicode_db \<Rightarrow> pystr \<Rightarrow> pystr" where
  "py_lower db s = lower_from db [] s"

definition is_word :: "unicode_db \<Rightarrow> nat \<Rightarrow> bool" where
  "is_word db c =
     (if c < 128
      then (48 \<le> c \<and> c \<le> 57) \<or> (65 \<le> c \<and> c \<le> 90) \<or> (97 \<le> c \<and> c \<le> 122) \<or> c = 95
      else alnum db c)"

definition is_space :: "unicode_db \<Rightarrow> nat \<Rightarrow> bool" where
  "is_space db c =
     (if c < 128 then (9 \<le> c \<and> c \<le> 13) \<or> (28 \<le> c \<and> c \<le> 31) \<or> c = 32
      else space db c)"

definition strip :: "unicode_db \<Rightarrow> pystr \<Rightarrow> pystr" where
  "strip db s = rev (dropWhile (is_space db) (rev (dropWhile (is_space db) s)))"

fun startswith :: "pystr \<Rightarrow> pystr \<Rightarrow> bool" where
  "startswith s [] = True"
| "startswith [] (c # cs) = False"
| "startswith (x # xs) (c # cs) = (x = c \<and> startswith xs cs)"

text \<open>\<open>str_in sub s\<close> is Python's \<^verbatim>\<open>sub in s\<close> on strings.\<close>

fun str_in :: "pystr \<Rightarrow> pystr \<Rightarrow> bool" where
  "str_in sub [] = (sub = [])"
| "str_in sub (x # xs) = (startswith (x # xs) sub \<or> str_in sub xs)"

fun join :: "pystr \<Rightarrow> pystr list \<Rightarrow> pystr" where
  "join sep [] = []"
| "join sep [x] = x"
| "join sep (x # y # ys) = x @ sep @ join sep (y # ys)"

fun split_acc :: "nat \<Rightarrow> pystr \<Rightarrow> pystr \<Rightarrow> pystr list" where
  "split_acc sep cur [] = [cur]"
| "split_acc sep cur (c # cs) =
     (if c = sep then cur # split_acc sep [] cs else split_acc sep (cur @ [c]) cs)"

text \<open>\<^verbatim>\<open>s.split(sep)\<close> for a separator of one character.\<close>

definition py_split :: "nat \<Rightarrow> pystr \<Rightarrow> pystr list" where
  "py_split sep s = split_acc sep [] s"

text \<open>The exceptions that the operations used by the source can raise.\<close>

datatype error = TypeError | IndexError

section \<open>Input and output records\<close>

text \<open>
  A field of a JSON object read by \<^verbatim>\<open>json.load\<close> may be missing, \<^verbatim>\<open>null\<close> or a string.
  \<^verbatim>\<open>d.get(k)\<close> and \<^verbatim>\<open>d.get(k, '')\<close> return \<^verbatim>\<open>None\<close> (here \<open>None\<close>) or a string.
  The repo is a string (the empty string when the key is missing); the lists of plugins,
  skills and commands are lists (empty when the key is missing).
\<close>

datatype jstr = Missing | Null | Str pystr

record entry =
  e_name :: jstr
  e_description :: jstr

record plugin =
  p_name :: jstr
  p_description :: jstr
  p_skills :: "entry list"
  p_commands :: "entry list"

record marketplace =
  m_repo :: pystr
  m_name :: jstr
  m_description :: jstr
  m_plugins :: "plugin list"

record analysis =
  r_repo :: pystr
  r_function :: "pystr option"
  r_value :: "pystr option"
  stage_lifecycle_arch :: "pystr list"
  r_integration :: "pystr option"

definition get :: "jstr \<Rightarrow> pystr option" where
  "get f = (case f of Missing \<Rightarrow> None | Null \<Rightarrow> None | Str s \<Rightarrow> Some s)"

definition get_default :: "jstr \<Rightarrow> pystr \<Rightarrow> pystr option" where
  "get_default f d = (case f of Missing \<Rightarrow> Some d | Null \<Rightarrow> None | Str s \<Rightarrow> Some s)"

text \<open>Truth value of \<^verbatim>\<open>None\<close> or a string.\<close>

definition truthy :: "pystr option \<Rightarrow> bool" where
  "truthy v = (case v of None \<Rightarrow> False | Some s \<Rightarrow> s \<noteq> [])"

section \<open>\<^verbatim>\<open>analyze_marketplace\<close>: collecting the text\<close>

record collected =
  all_info :: "pystr list"
  plugin_names :: "pystr list"
  skill_names :: "pystr list"
  command_names :: "pystr list"

text \<open>\<^verbatim>\<open>if d.get(k): xs.append(d.get(k))\<close>\<close>

definition append_if :: "pystr option \<Rightarrow> pystr list \<Rightarrow> pystr list" where
  "append_if v xs = (case v of None \<Rightarrow> xs | Some s \<Rightarrow> if s \<noteq> [] then xs @ [s] else xs)"

definition skill_step :: "entry \<Rightarrow> collected \<Rightarrow> collected" where
  "skill_step s st =
     (let st1 = st\<lparr>skill_names := append_if (get (e_name s)) (skill_names st)\<rparr>
      in st1\<lparr>all_info := append_if (get (e_description s)) (all_info st1)\<rparr>)"

definition command_step :: "entry \<Rightarrow> collected \<Rightarrow> collected" where
  "command_step c st =
     (let st1 = st\<lparr>command_names := append_if (get (e_name c)) (command_names st)\<rparr>
      in st1\<lparr>all_info := append_if (get (e_description c)) (all_info st1)\<rparr>)"

definition plugin_step :: "plugin \<Rightarrow> collected \<Rightarrow> collected" where
  "plugin_step p st =
     (let st1 = st\<lparr>plugin_names := append_if (get (p_name p)) (plugin_names st)\<rparr>;
          st2 = st1\<lparr>all_info := append_if (get (p_description p)) (all_info st1)\<rparr>;
          st3 = fold skill_step (p_skills p) st2
      in fold command_step (p_commands p) st3)"

definition collect :: "marketplace \<Rightarrow> collected" where
  "collect m =
     (let desc = get_default (m_description m) [];
          st0 = \<lparr>all_info = append_if desc [], plugin_names = [], skill_names = [],
                 command_names = []\<rparr>
      in fold plugin_step (m_plugins m) st0)"

definition combined_text :: "unicode_db \<Rightarrow> marketplace \<Rightarrow> pystr" where
  "combined_text db m = py_lower db (join (u '' '') (all_info (collect m)))"

definition all_names_text :: "unicode_db \<Rightarrow> marketplace \<Rightarrow> pystr" where
  "all_names_text db m =
     (let st = collect m
      in py_lower db (join (u '' '') (plugin_names st @ skill_names st @ command_names st)))"

section \<open>\<^verbatim>\<open>detect_integration\<close>\<close>

definition integrations :: "(pystr \<times> pystr) list" where
  "integrations = map (\<lambda>(keyword, name). (u keyword, u name))
  [(''holoviz'', ''HoloViz''),
   (''treasure data'', ''Treasure Data''),
   (''home assistant'', ''Home Assistant''),
   (''esphome'', ''ESPHome''),
   (''graphpad prism'', ''GraphPad Prism''),
   (''redpanda connect'', ''Redpanda Connect''),
   (''shesha'', ''Shesha Framework''),
   (''microsoft 365'', ''Microsoft 365''),
   (''m365'', ''Microsoft 365''),
   (''google workspace'', ''Google Workspace''),
   (''twenty crm'', ''Twenty CRM''),
   (''makerkit'', ''MakerKit''),
   (''dojo'', ''Dojo/Starknet''),
   (''starknet'', ''Dojo/Starknet''),
   (''shioaji'', ''Shioaji''),
   (''frappe'', ''Frappe/ERPNext''),
   (''erpnext'', ''Frappe/ERPNext''),
   (''maui blazor'', ''.NET MAUI Blazor''),
   (''nette'', ''Nette Framework''),
   (''composable architecture'', ''Swift/TCA''),
   (''tca'', ''Swift/TCA''),
   (''webviewbridge'', ''Swift/WebKit''),
   (''langroid'', ''Langroid''),
   (''langchain'', ''LangChain''),
   (''dspy'', ''DSPy''),
   (''insforge'', ''InsForge''),
   (''cloudflare worker'', ''Cloudflare Workers''),
   (''railway'', ''Railway''),
   (''vercel'', ''Vercel''),
   (''hetzner'', ''Hetzner''),
   (''kubernetes'', ''Kubernetes''),
   (''k8s'', ''Kubernetes''),
   (''terraform'', ''Terraform''),
   (''docker'', ''Docker''),
   (''github action'', ''GitHub Actions''),
   (''buildkite'', ''Buildkite''),
   (''gitlab'', ''GitLab''),
   (''azure devops'', ''Azure DevOps''),
   (''aws'', ''AWS''),
   (''azure'', ''Azure''),
   (''gcp'', ''GCP''),
   (''google cloud'', ''GCP''),
   (''supabase'', ''Supabase''),
   (''firebase'', ''Firebase''),
   (''postgresql'', ''PostgreSQL''),
   (''postgres'', ''PostgreSQL''),
   (''mysql'', ''MySQL''),
   (''mongodb'', ''MongoDB''),
   (''redis'', ''Redis''),
   (''neo4j'', ''Neo4j''),
   (''duckdb'', ''DuckDB''),
   (''drizzle'', ''Drizzle ORM''),
   (''prisma'', ''Prisma''),
   (''sqlalchemy'', ''SQLAlchemy''),
   (''sql server'', ''SQL Server''),
   (''tsqlt'', ''SQL Server''),
   (''cool-mysql'', ''MySQL''),
   (''next.js'', ''Next.js''),
   (''nextjs'', ''Next.js''),
   (''nuxt'', ''Nuxt''),
   (''svelte'', ''Svelte''),
   (''angular'', ''Angular''),
   (''vue'', ''Vue''),
   (''react native'', ''React Native''),
   (''expo'', ''Expo''),
   (''flutter'', ''Flutter''),
   (''tanstack'', ''TanStack''),
   (''taro'', ''Taro''),
   (''django'', ''Django''),
   (''fastapi'', ''FastAPI''),
   (''spring boot'', ''Spring Boot''),
   (''springboot'', ''Spring Boot''),
   (''laravel'', ''Laravel''),
   (''laravel forge'', ''Laravel Forge''),
   (''ruby on rails'', ''Ruby on Rails''),
   (''rails'', ''Ruby on Rails''),
   (''go gin'', ''Go Gin''),
   (''gin framework'', ''Go Gin''),
   (''go echo'', ''Go Echo''),
   (''echo framework'', ''Go Echo''),
   (''hono'', ''Hono''),
   (''axum'', ''Rust Axum''),
   (''asp.net'', ''ASP.NET''),
   (''elixir'', ''Elixir''),
   (''phoenix'', ''Elixir/Phoenix''),
   (''haskell'', ''Haskell''),
   (''hoogle'', ''Haskell''),
   (''julia'', ''Julia''),
   (''elm'', ''Elm''),
   (''dart'', ''Dart''),
   (''rust'', ''Rust''),
   (''golang'', ''Go''),
   (''godot'', ''Godot''),
   (''unity'', ''Unity''),
   (''unreal'', ''Unreal''),
   (''ida pro'', ''IDA Pro''),
   (''idapython'', ''IDA Pro''),
   (''obsidian'', ''Obsidian''),
   (''notion'', ''Notion''),
   (''slack'', ''Slack''),
   (''jira'', ''Jira''),
   (''linear'', ''Linear''),
   (''playwright'', ''Playwright''),
   (''xcode'', ''Xcode''),
   (''iterm'', ''iTerm2''),
   (''tmux'', ''tmux''),
   (''zellij'', ''Zellij''),
   (''whisper'', ''Whisper''),
   (''browserbase'', ''Browserbase''),
   (''stripe'', ''Stripe''),
   (''plaid'', ''Plaid''),
   (''auth0'', ''Auth0''),
   (''posthog'', ''PostHog''),
   (''sentry'', ''Sentry''),
   (''bugsnag'', ''Bugsnag''),
   (''prometheus'', ''Prometheus''),
   (''tavily'', ''Tavily''),
   (''brevo'', ''Brevo''),
   (''salesforce'', ''Salesforce''),
   (''graphql'', ''GraphQL''),
   (''openapi'', ''OpenAPI''),
   (''openai'', ''OpenAI''),
   (''gemini'', ''Google Gemini''),
   (''anthropic'', ''Anthropic''),
   (''ollama'', ''Ollama''),
   (''mlx'', ''MLX''),
   (''pytorch'', ''PyTorch''),
   (''transformers'', ''Transformers''),
   (''modal'', ''Modal''),
   (''olakai'', ''Olakai''),
   (''aptos'', ''Aptos''),
   (''walrus'', ''Walrus''),
   (''shelby'', ''Shelby/Aptos''),
   (''web3'', ''Web3''),
   (''blockchain'', ''Blockchain''),
   (''wechat'', ''WeChat''),
   (''ia writer'', ''iA Writer''),
   (''polars'', ''Polars''),
   (''oxlint'', ''Oxlint''),
   (''marksman'', ''Marksman'')]"

text \<open>The loop over the table, returning at the first keyword found.\<close>

fun scan_integrations :: "unicode_db \<Rightarrow> pystr \<Rightarrow> pystr \<Rightarrow> (pystr \<times> pystr) list \<Rightarrow> pystr option" where
  "scan_integrations db combined repo [] = None"
| "scan_integrations db combined repo ((keyword, name) # rest) =
     (if str_in keyword combined \<or> str_in keyword (py_lower db repo) then Some name
      else scan_integrations db combined repo rest)"

text \<open>The rules after the loop.\<close>

definition generic_integration :: "pystr \<Rightarrow> pystr option" where
  "generic_integration combined =
     (if str_in (u ''react'') combined \<and> \<not> str_in (u ''native'') combined
           \<and> \<not> str_in (u ''reactive'') combined
      then Some (u ''React'')
      else if str_in (u ''python'') combined
           \<and> \<not> list_ex (\<lambda>x. str_in x combined) [u ''django'', u ''fastapi'', u ''flask'']
      then Some (u ''Python'')
      else if str_in (u ''typescript'') combined then Some (u ''TypeScript'')
      else if str_in (u ''.net'') combined \<or> str_in (u ''dotnet'') combined then Some (u ''.NET'')
      else if str_in (u '' go '') combined \<or> startswith combined (u ''go '')
           \<or> str_in (u ''golang'') combined
      then Some (u ''Go'')
      else if str_in (u ''swift'') combined \<and> \<not> str_in (u ''swiftui'') combined
      then Some (u ''Swift'')
      else None)"

definition detect_integration :: "unicode_db \<Rightarrow> pystr \<Rightarrow> pystr \<Rightarrow> pystr \<Rightarrow> pystr option" where
  "detect_integration db combined all_names repo =
     (case scan_integrations db combined repo integrations of
        Some name \<Rightarrow> Some name
      | None \<Rightarrow> generic_integration combined)"

section \<open>\<^verbatim>\<open>detect_tags\<close>\<close>

text \<open>
  Every pattern of the table has the shape \<^verbatim>\<open>\b(a1|...|an)\b\<close>, where each alternative
  is literal text except for \<^verbatim>\<open>.\<close>, which matches any character but a newline. A pattern is
  kept as the list of its alternatives. \<^verbatim>\<open>re.search\<close> succeeds if and only if some
  alternative matches at some position with a word boundary on both sides.
\<close>

definition tag_patterns :: "(pystr list \<times> pystr) list" where
  "tag_patterns = map (\<lambda>(alts, tag). (map u alts, u tag))
  [([''plan'', ''planning'', ''spec'', ''specification'', ''requirement'', ''prd'', ''roadmap''], ''planning''),
   ([''design'', ''architect'', ''uml'', ''diagram'', ''blueprint'', ''wireframe''], ''design''),
   ([''implement'', ''develop'', ''code'', ''build'', ''scaffold'', ''generate''], ''implementation''),
   ([''test'', ''tdd'', ''bdd'', ''unit test'', ''e2e'', ''playwright'', ''jest'', ''pytest''], ''testing''),
   ([''deploy'', ''ci/cd'', ''release'', ''ship'', ''publish'', ''pipeline''], ''deployment''),
   ([''monitor'', ''observ'', ''metric'', ''telemetry'', ''trace'', ''log''], ''monitoring''),
   ([''debug'', ''troubleshoot'', ''diagnos'', ''fix'', ''error''], ''debugging''),
   ([''document'', ''doc'', ''readme'', ''changelog'', ''wiki''], ''documentation''),
   ([''review'', ''pr review'', ''code review'', ''audit''], ''code-review''),
   ([''context'', ''memory'', ''session'', ''persist'', ''state''], ''context-management''),
   ([''orchestrat'', ''multi-agent'', ''workflow'', ''pipeline'', ''coordinate''], ''orchestration''),
   ([''frontend'', ''ui'', ''component'', ''css'', ''style'', ''tailwind''], ''frontend''),
   ([''backend'', ''api'', ''server'', ''endpoint'', ''rest'', ''graphql''], ''backend''),
   ([''database'', ''sql'', ''migration'', ''schema'', ''orm'', ''query''], ''database''),
   ([''devops'', ''infrastructure'', ''cloud'', ''container'', ''k8s''], ''devops''),
   ([''security'', ''auth'', ''oauth'', ''vulnerability'', ''encrypt'', ''permission''], ''security''),
   ([''git'', ''commit'', ''branch'', ''merge'', ''rebase'', ''pr'', ''pull request''], ''version-control''),
   ([''refactor'', ''clean'', ''simplif'', ''reorganize''], ''refactoring''),
   ([''research'', ''analys'', ''investigat'', ''explor''], ''research''),
   ([''visual'', ''dashboard'', ''chart'', ''graph'', ''plot''], ''data-visualization''),
   ([''data process'', ''transform'', ''etl'', ''pipeline'', ''ingest''], ''data-processing''),
   ([''mobile'', ''ios'', ''android'', ''app store''], ''mobile''),
   ([''game'', ''unity'', ''godot'', ''unreal''], ''game-development''),
   ([''llm'', ''machine learning'', ''ml'', ''ai agent'', ''prompt''], ''ai-ml''),
   ([''prompt engineer'', ''prompt optim''], ''prompt-engineering''),
   ([''plugin develop'', ''skill creat'', ''marketplace''], ''plugin-development''),
   ([''incident'', ''root cause'', ''postmortem'', ''sre''], ''incident-response''),
   ([''notification'', ''alert'', ''webhook'', ''sound''], ''notifications''),
   ([''project manage'', ''task'', ''issue'', ''ticket'', ''backlog'', ''sprint''], ''project-management''),
   ([''content'', ''write'', ''blog'', ''article'', ''copy''], ''content-creation''),
   ([''translate'', ''i18n'', ''localization'', ''language''], ''localization''),
   ([''accessibility'', ''a11y'', ''wcag''], ''accessibility''),
   ([''performance'', ''optim'', ''speed'', ''cache''], ''performance''),
   ([''reverse engineer'', ''binary'', ''decompile'', ''disassembl''], ''reverse-engineering''),
   ([''crypto'', ''trading'', ''defi'', ''finance'', ''payment''], ''fintech''),
   ([''crm'', ''customer'', ''lead'', ''sales''], ''crm''),
   ([''marketing'', ''seo'', ''campaign'', ''analytics''], ''marketing''),
   ([''lsp'', ''language server''], ''language-server''),
   ([''format'', ''lint'', ''prettier'', ''eslint'', ''style''], ''code-quality''),
   ([''type check'', ''type signature'', ''rbs'', ''sorbet''], ''type-checking''),
   ([''ddd'', ''domain.driven'', ''bounded context''], ''domain-driven-design''),
   ([''tdd'', ''test.driven''], ''test-driven-development'')]"

definition atom_ok :: "nat \<Rightarrow> nat \<Rightarrow> bool" where
  "atom_ok a c = (if a = 46 then c \<noteq> 10 else a = c)"

fun match_alt :: "pystr \<Rightarrow> nat option \<Rightarrow> pystr \<Rightarrow> (nat option \<times> pystr) option" where
  "match_alt [] prev s = Some (prev, s)"
| "match_alt (a # as) prev [] = None"
| "match_alt (a # as) prev (c # cs) = (if atom_ok a c then match_alt as (Some c) cs else None)"

definition word_at :: "unicode_db \<Rightarrow> nat option \<Rightarrow> bool" where
  "word_at db c = (case c of None \<Rightarrow> False | Some x \<Rightarrow> is_word db x)"

definition head :: "pystr \<Rightarrow> nat option" where
  "head s = (case s of [] \<Rightarrow> None | c # cs \<Rightarrow> Some c)"

text \<open>\<^verbatim>\<open>\b\<close> between the character before (if any) and the character after (if any).\<close>

definition boundary :: "unicode_db \<Rightarrow> nat option \<Rightarrow> nat option \<Rightarrow> bool" where
  "boundary db prev nxt = (word_at db prev \<noteq> word_at db nxt)"

definition match_here :: "unicode_db \<Rightarrow> pystr \<Rightarrow> nat option \<Rightarrow> pystr \<Rightarrow> bool" where
  "match_here db alt prev s =
     (boundary db prev (head s) \<and>
      (case match_alt alt prev s of
         None \<Rightarrow> False
       | Some (lst, rest) \<Rightarrow> boundary db lst (head rest)))"

fun search_from :: "unicode_db \<Rightarrow> pystr list \<Rightarrow> nat option \<Rightarrow> pystr \<Rightarrow> bool" where
  "search_from db alts prev [] = list_ex (\<lambda>alt. match_here db alt prev []) alts"
| "search_from db alts prev (c # cs) =
     (list_ex (\<lambda>alt. match_here db alt prev (c # cs)) alts \<or> search_from db alts (Some c) cs)"

definition re_search :: "unicode_db \<Rightarrow> pystr list \<Rightarrow> pystr \<Rightarrow> bool" where
  "re_search db alts s = search_from db alts None s"

definition tag_step :: "unicode_db \<Rightarrow> pystr \<Rightarrow> pystr list \<times> pystr \<Rightarrow> pystr set \<Rightarrow> pystr set" where
  "tag_step db combined pt tags =
     (case pt of (pattern, tag) \<Rightarrow> if re_search db pattern combined then insert tag tags else tags)"

definition detect_tags :: "unicode_db \<Rightarrow> pystr \<Rightarrow> pystr \<Rightarrow> pystr set" where
  "detect_tags db combined all_names = fold (tag_step db combined) tag_patterns {}"

text \<open>\<^verbatim>\<open>sorted(list(tags)) if tags else ['general']\<close>\<close>

definition tags_output :: "pystr set \<Rightarrow> pystr list" where
  "tags_output tags = (if tags \<noteq> {} then sorted_list_of_set tags else [u ''general''])"

section \<open>\<^verbatim>\<open>generate_descriptions\<close>\<close>

text \<open>The loop that looks for the first plugin with a description, leaving at the first one.\<close>

fun first_plugin_desc :: "plugin list \<Rightarrow> pystr option" where
  "first_plugin_desc [] = None"
| "first_plugin_desc (p # ps) =
     (if truthy (get (p_description p)) then get (p_description p) else first_plugin_desc ps)"

text \<open>\<^verbatim>\<open>sep.join(xs)\<close> raises \<^verbatim>\<open>TypeError\<close> when an item of \<open>xs\<close> is \<^verbatim>\<open>None\<close>.\<close>

definition py_join :: "pystr \<Rightarrow> pystr option list \<Rightarrow> error + pystr" where
  "py_join sep xs = (case those xs of None \<Rightarrow> Inl TypeError | Some ys \<Rightarrow> Inr (join sep ys))"

text \<open>The branch for a record without description (source lines 347 to 364).\<close>

definition guess_from_names :: "unicode_db \<Rightarrow> marketplace \<Rightarrow> error + (pystr option \<times> pystr option)" where
  "guess_from_names db m =
     (let plugin_names = map (\<lambda>p. get_default (p_name p) []) (m_plugins m)
      in if plugin_names = [] then Inr (None, None)
         else
           let repo_lower = py_lower db (m_repo m)
           in case py_join (u '' '') plugin_names of
                Inl e \<Rightarrow> Inl e
              | Inr joined \<Rightarrow>
                  let names_combined = py_lower db joined
                  in if str_in (u ''git'') names_combined \<or> str_in (u ''commit'') names_combined
                     then Inr (Some (u ''Automate git workflows including commits, branches, and pull requests.''),
                               Some (u ''Streamline version control with consistent, well-formatted commits.''))
                     else if str_in (u ''review'') names_combined
                     then Inr (Some (u ''Review code changes and provide feedback.''),
                               Some (u ''Catch issues early with automated code review.''))
                     else if str_in (u ''test'') names_combined
                     then Inr (Some (u ''Generate and run tests for code.''),
                               Some (u ''Ensure code quality with comprehensive test coverage.''))
                     else Inr (None, None))"

text \<open>The content rules before the integration branch (source lines 374 to 431).\<close>

definition content_pair :: "pystr \<Rightarrow> (pystr \<times> pystr) option" where
  "content_pair combined =
     (
      if str_in (u ''visualization'') combined \<or> str_in (u ''holoviz'') combined \<or> (str_in (u ''dashboard'') combined \<and> str_in (u ''data'') combined)
      then Some (u ''Build interactive data visualizations and dashboards.'',
                 u ''Create publication-quality visualizations with less code.'')
      else if str_in (u ''api'') combined \<and> (str_in (u ''document'') combined \<or> str_in (u ''endpoint'') combined) \<and> \<not> str_in (u ''visual'') combined
      then Some (u ''Document and explore REST API endpoints through testing and analysis.'',
                 u ''Understand and document APIs quickly without manual exploration.'')
      else if str_in (u ''dashboard'') combined
      then Some (u ''Build interactive data visualizations and dashboards.'',
                 u ''Create publication-quality visualizations with less code.'')
      else if str_in (u ''root cause'') combined \<or> str_in (u ''incident'') combined
      then Some (u ''Investigate production incidents and identify root causes.'',
                 u ''Reduce mean time to resolution with systematic debugging.'')
      else if str_in (u ''multi-agent'') combined \<or> str_in (u ''orchestrat'') combined
      then Some (u ''Coordinate multiple AI agents to complete complex tasks.'',
                 u ''Break down large problems into parallel workstreams.'')
      else if str_in (u ''session'') combined \<and> (str_in (u ''context'') combined \<or> str_in (u ''memory'') combined \<or> str_in (u ''analytics'') combined)
      then Some (u ''Track and manage session state, context, and analytics.'',
                 u ''Maintain continuity across conversations and optimize performance.'')
      else if str_in (u ''spec'') combined \<and> (str_in (u ''driven'') combined \<or> str_in (u ''workflow'') combined)
      then Some (u ''Follow specification-driven development with planning, design, and implementation phases.'',
                 u ''Build software systematically with clear requirements and traceability.'')
      else if str_in (u ''tdd'') combined \<or> str_in (u ''test-driven'') combined
      then Some (u ''Implement features using test-driven development methodology.'',
                 u ''Write reliable code with comprehensive test coverage from the start.'')
      else if str_in (u ''git'') combined \<and> (str_in (u ''commit'') combined \<or> str_in (u ''workflow'') combined \<or> str_in (u ''pr'') combined)
      then Some (u ''Automate git workflows including commits, branches, and pull requests.'',
                 u ''Maintain clean git history with consistent commit conventions.'')
      else if str_in (u ''code review'') combined \<or> str_in (u ''pr review'') combined
      then Some (u ''Review code changes and provide feedback on quality, security, and best practices.'',
                 u ''Catch bugs and improve code quality before merging.'')
      else if str_in (u ''plugin'') combined \<and> (str_in (u ''develop'') combined \<or> str_in (u ''create'') combined \<or> str_in (u ''build'') combined)
      then Some (u ''Create and manage Claude Code plugins, skills, and commands.'',
                 u ''Extend Claude Code with custom functionality tailored to your workflow.'')
      else if str_in (u ''document'') combined \<or> str_in (u ''changelog'') combined \<or> str_in (u ''readme'') combined
      then Some (u ''Generate and maintain project documentation including READMEs and changelogs.'',
                 u ''Keep documentation up-to-date with minimal manual effort.'')
      else None)"

text \<open>The branch \<^verbatim>\<open>elif integration:\<close> (source lines 435 to 530).\<close>

definition integration_pair :: "pystr \<Rightarrow> pystr \<times> pystr" where
  "integration_pair integration =
     (
      if integration = u ''Flutter''
      then (u ''Build and review Flutter/Dart applications with best practices.'',
            u ''Develop cross-platform mobile apps faster with expert guidance.'')
      else if integration = u ''Django''
      then (u ''Develop Django applications following best practices and patterns.'',
            u ''Build robust Python web applications with proper architecture.'')
      else if integration = u ''Next.js''
      then (u ''Build Next.js applications with React, routing, and server components.'',
            u ''Create production-ready React applications with modern patterns.'')
      else if integration = u ''Spring Boot''
      then (u ''Develop Spring Boot applications with proper architecture and patterns.'',
            u ''Build enterprise Java applications following best practices.'')
      else if integration = u ''Godot''
      then (u ''Develop, test, and deploy Godot game projects.'',
            u ''Accelerate game development with automated testing and deployment.'')
      else if integration = u ''IDA Pro''
      then (u ''Analyze binaries and automate reverse engineering tasks in IDA Pro.'',
            u ''Accelerate security research with automated binary analysis.'')
      else if integration = u ''Supabase''
      then (u ''Build applications with Supabase for database, auth, and storage.'',
            u ''Develop full-stack apps quickly with managed backend services.'')
      else if integration = u ''Jira''
      then (u ''Manage Jira issues, sprints, and workflows.'',
            u ''Streamline project management with automated Jira operations.'')
      else if integration = u ''Linear''
      then (u ''Manage Linear issues and development workflows.'',
            u ''Keep development in sync with project management.'')
      else if integration = u ''Home Assistant''
      then (u ''Create Home Assistant automations, scripts, and ESPHome configurations.'',
            u ''Build smart home integrations with expert guidance.'')
      else if integration = u ''Obsidian''
      then (u ''Manage Obsidian vaults including notes, links, and organization.'',
            u ''Keep your knowledge base organized and interconnected.'')
      else if integration = u ''Salesforce''
      then (u ''Develop Salesforce applications including Apex, Flows, and metadata.'',
            u ''Build and maintain Salesforce customizations efficiently.'')
      else if integration \<in> set [u ''Go'', u ''Go Gin'', u ''Go Echo'']
      then (u ''Develop Go applications with proper patterns and best practices.'',
            u ''Write idiomatic, performant Go code.'')
      else if integration = u ''Rust''
      then (u ''Develop Rust applications with proper patterns and error handling.'',
            u ''Write safe, efficient Rust code.'')
      else if integration = u ''Elixir/Phoenix''
      then (u ''Design and build Elixir/Phoenix applications with OTP patterns.'',
            u ''Create scalable, fault-tolerant systems.'')
      else if integration = u ''Laravel''
      then (u ''Develop Laravel applications with proper patterns and conventions.'',
            u ''Build PHP applications following Laravel best practices.'')
      else if integration = u ''Expo''
      then (u ''Build and deploy Expo/React Native mobile applications.'',
            u ''Ship mobile apps faster with streamlined development workflows.'')
      else if integration \<in> set [u ''AWS'', u ''Azure'', u ''GCP'']
      then (u ''Deploy and manage cloud infrastructure on '' @ integration @ u ''.'',
            u ''Automate cloud operations with infrastructure as code.'')
      else if integration = u ''Kubernetes''
      then (u ''Deploy and manage Kubernetes applications and configurations.'',
            u ''Simplify container orchestration and deployment.'')
      else if integration = u ''Docker''
      then (u ''Build and manage Docker containers and development environments.'',
            u ''Standardize development and deployment with containers.'')
      else if integration = u ''Playwright''
      then (u ''Automate browser testing and web scraping with Playwright.'',
            u ''Test web applications reliably across browsers.'')
      else if integration = u ''GraphQL''
      then (u ''Design and implement GraphQL APIs and schemas.'',
            u ''Build flexible, efficient APIs with GraphQL.'')
      else if integration = u ''Stripe''
      then (u ''Integrate Stripe payments, subscriptions, and webhooks.'',
            u ''Add payment processing to applications quickly.'')
      else if integration = u ''PostHog''
      then (u ''Manage PostHog feature flags, analytics, and user tracking.'',
            u ''Make data-driven decisions with product analytics.'')
      else if integration = u ''Sentry''
      then (u ''Debug application errors using Sentry error tracking.'',
            u ''Identify and fix bugs faster with error context.'')
      else if integration = u ''Notion''
      then (u ''Manage and automate Notion workspaces and knowledge bases.'',
            u ''Keep documentation and knowledge organized.'')
      else if integration = u ''Slack''
      then (u ''Search and interact with Slack workspaces and channels.'',
            u ''Find information and automate Slack workflows.'')
      else if integration = u ''Google Gemini''
      then (u ''Generate images and content using Google Gemini APIs.'',
            u ''Create AI-generated assets for applications.'')
      else if integration = u ''LangChain''
      then (u ''Build AI agents and workflows using LangChain.'',
            u ''Create sophisticated AI applications with modular components.'')
      else if integration = u ''Web3''
      then (u ''Develop Web3 and blockchain applications.'',
            u ''Build decentralized applications with proper patterns.'')
      else if integration = u ''WeChat''
      then (u ''Create WeChat Mini Programs and official account content.'',
            u ''Reach users on China'' @ [39] @ u ''s dominant messaging platform.'')
      else (u ''Develop '' @ integration @ u '' applications with best practices and patterns.'',
            u ''Build quality '' @ integration @ u '' projects faster.''))"

text \<open>The content rules after the integration branch (source lines 533 to 555).\<close>

definition late_pair :: "pystr \<Rightarrow> (pystr \<times> pystr) option" where
  "late_pair combined =
     (
      if str_in (u ''autonomous'') combined \<or> str_in (u ''autopilot'') combined \<or> str_in (u ''ralph'') combined
      then Some (u ''Run autonomous development loops that iterate until task completion.'',
                 u ''Let AI handle repetitive development tasks independently.'')
      else if str_in (u ''research'') combined \<and> (str_in (u ''deep'') combined \<or> str_in (u ''web'') combined)
      then Some (u ''Conduct deep research using web search and source analysis.'',
                 u ''Get comprehensive, verified answers to complex questions.'')
      else if str_in (u ''notification'') combined \<or> str_in (u ''alert'') combined \<or> str_in (u ''sound'') combined
      then Some (u ''Send notifications when Claude completes tasks or needs input.'',
                 u ''Stay informed without watching the terminal.'')
      else if str_in (u ''domain-driven'') combined \<or> str_in (u ''ddd'') combined \<or> str_in (u ''bounded context'') combined
      then Some (u ''Apply Domain-Driven Design principles to software architecture.'',
                 u ''Build maintainable systems aligned with business domains.'')
      else if str_in (u ''security'') combined \<and> (str_in (u ''audit'') combined \<or> str_in (u ''review'') combined \<or> str_in (u ''scan'') combined)
      then Some (u ''Audit code for security vulnerabilities and compliance issues.'',
                 u ''Identify security risks before they reach production.'')
      else None)"

subsection \<open>The default branch: a sentence of the source description\<close>

definition cjk_terminators :: "nat list" where
  "cjk_terminators = [12290, 65281, 65311]"

definition terminators :: "nat list" where
  "terminators = [46, 33, 63, 12290, 65281, 65311]"

text \<open>
  \<^verbatim>\<open>re.match(r'^(.+?[...])', source)\<close> with the three CJK terminators in the class: the lazy
  \<^verbatim>\<open>.+?\<close> takes one character that is not a newline, then stops at the first terminator,
  taking one more character that is not a newline whenever the next one is no terminator.
  The result is group 1.
\<close>

fun cjk_lazy :: "pystr \<Rightarrow> pystr \<Rightarrow> pystr option" where
  "cjk_lazy acc [] = None"
| "cjk_lazy acc (c # cs) =
     (if c \<in> set cjk_terminators then Some (acc @ [c])
      else if c \<noteq> 10 then cjk_lazy (acc @ [c]) cs
      else None)"

definition match_cjk :: "pystr \<Rightarrow> pystr option" where
  "match_cjk source =
     (case source of [] \<Rightarrow> None | c # cs \<Rightarrow> if c \<noteq> 10 then cjk_lazy [c] cs else None)"

text \<open>
  \<^verbatim>\<open>re.match(r'^([^T]+[T]?)', source)\<close> with \<open>T\<close> the six terminators: the greedy run of
  characters that are no terminators must not be empty; the character after the run, if
  there is one, is a terminator and is taken.
\<close>

definition match_sentence :: "pystr \<Rightarrow> pystr option" where
  "match_sentence source =
     (let run = takeWhile (\<lambda>c. c \<notin> set terminators) source;
          rest = dropWhile (\<lambda>c. c \<notin> set terminators) source
      in if run = [] then None
         else Some (run @ (case rest of [] \<Rightarrow> [] | t # ts \<Rightarrow> [t])))"

text \<open>Source lines 564 to 578.\<close>

definition sentence_of :: "unicode_db \<Rightarrow> pystr \<Rightarrow> error + pystr" where
  "sentence_of db source =
     (case py_split 46 source of
        [] \<Rightarrow> Inl IndexError
      | piece # pieces \<Rightarrow>
          let first_sentence = strip db piece
          in if length first_sentence < 10 \<and> length source > 20
             then (case match_cjk source of
                     Some g \<Rightarrow> Inr (strip db g)
                   | None \<Rightarrow> Inr (strip db source))
             else (case match_sentence source of
                     Some g \<Rightarrow> Inr (strip db g)
                   | None \<Rightarrow> Inr (strip db source)))"

text \<open>Source lines 580 to 581.\<close>

definition truncate_func :: "pystr \<Rightarrow> pystr" where
  "truncate_func func = (if length func > 150 then take 147 func @ u ''...'' else func)"

text \<open>Source lines 582 to 583.\<close>

definition terminate_func :: "pystr \<Rightarrow> pystr" where
  "terminate_func func =
     (if func \<noteq> [] \<and> last func \<notin> set terminators then func @ u ''.'' else func)"

definition fallback_function :: "unicode_db \<Rightarrow> pystr \<Rightarrow> error + pystr" where
  "fallback_function db source =
     (case sentence_of db source of
        Inl e \<Rightarrow> Inl e
      | Inr func \<Rightarrow> Inr (terminate_func (truncate_func func)))"

text \<open>Source lines 586 to 595.\<close>

definition fallback_value :: "pystr \<Rightarrow> pystr" where
  "fallback_value combined =
     (if str_in (u ''productivity'') combined \<or> str_in (u ''workflow'') combined
      then u ''Improve development productivity with automated workflows.''
      else if str_in (u ''quality'') combined
      then u ''Maintain high code quality with consistent standards.''
      else if str_in (u ''speed'') combined \<or> str_in (u ''fast'') combined
      then u ''Complete development tasks faster.''
      else if str_in (u ''learn'') combined \<or> str_in (u ''teach'') combined
      then u ''Learn and improve development skills.''
      else u ''Streamline development workflows and reduce manual effort.'')"

definition generate_descriptions ::
  "unicode_db \<Rightarrow> marketplace \<Rightarrow> pystr \<Rightarrow> pystr option \<Rightarrow> pystr set
     \<Rightarrow> error + (pystr option \<times> pystr option)" where
  "generate_descriptions db m combined integration tags =
     (let desc = get_default (m_description m) [];
          plugin_desc = first_plugin_desc (m_plugins m)
      in if \<not> truthy desc \<and> \<not> truthy plugin_desc then guess_from_names db m
         else
           let source = (if truthy desc then desc else plugin_desc)
           in case content_pair combined of
                Some (func, val) \<Rightarrow> Inr (Some func, Some val)
              | None \<Rightarrow>
                  if truthy integration
                  then (case integration_pair (the integration) of
                          (func, val) \<Rightarrow> Inr (Some func, Some val))
                  else (case late_pair combined of
                          Some (func, val) \<Rightarrow> Inr (Some func, Some val)
                        | None \<Rightarrow>
                            if truthy source
                            then (case fallback_function db (the source) of
                                    Inl e \<Rightarrow> Inl e
                                  | Inr func \<Rightarrow> Inr (Some func, Some (fallback_value combined)))
                            else Inr (None, None)))"

section \<open>\<^verbatim>\<open>analyze_marketplace\<close>\<close>

definition analyze_marketplace :: "unicode_db \<Rightarrow> marketplace \<Rightarrow> int \<Rightarrow> error + analysis" where
  "analyze_marketplace db m idx =
     (let repo = m_repo m;
          combined = combined_text db m;
          all_names = all_names_text db m;
          integration = detect_integration db combined all_names repo;
          tags = detect_tags db combined all_names
      in case generate_descriptions db m combined integration tags of
           Inl e \<Rightarrow> Inl e
         | Inr (func, val) \<Rightarrow>
             Inr \<lparr>r_repo = repo, r_function = func, r_value = val,
                  stage_lifecycle_arch = tags_output tags, r_integration = integration\<rparr>)"

section \<open>Scenarios\<close>

text \<open>The record of the end-to-end scenario: a repository and a description, no plugins.\<close>

definition k8s_record :: marketplace where
  "k8s_record = \<lparr>m_repo = u ''x/y'', m_name = Missing,
     m_description = Str (u ''A tool for Kubernetes deployment automation.''), m_plugins = []\<rparr>"

definition k8s_result :: analysis where
  "k8s_result =
     \<lparr>r_repo = u ''x/y'',
      r_function = Some (u ''Deploy and manage Kubernetes applications and configurations.''),
      r_value = Some (u ''Simplify container orchestration and deployment.''),
      stage_lifecycle_arch = [u ''general''],
      r_integration = Some (u ''Kubernetes'')\<rparr>"

section \<open>The aggregated text, as the specification words it\<close>

text \<open>
  A description contributes when it is present: a string that is not empty (a missing key,
  \<^verbatim>\<open>null\<close> and the empty string all count as absent).
\<close>

definition text_of :: "jstr \<Rightarrow> pystr list" where
  "text_of f = (case f of Str s \<Rightarrow> (if s \<noteq> [] then [s] else []) | _ \<Rightarrow> [])"

text \<open>
  For a plugin: its description, then each skill's description in order, then each
  command's description in order.
\<close>

definition spec_plugin_texts :: "plugin \<Rightarrow> pystr list" where
  "spec_plugin_texts p =
     text_of (p_description p)
     @ concat (map (\<lambda>s. text_of (e_description s)) (p_skills p))
     @ concat (map (\<lambda>c. text_of (e_description c)) (p_commands p))"

text \<open>For a record: its description, then the texts of each plugin in order.\<close>

definition spec_record_texts :: "marketplace \<Rightarrow> pystr list" where
  "spec_record_texts m = text_of (m_description m) @ concat (map spec_plugin_texts (m_plugins m))"

definition spec_combined_text :: "unicode_db \<Rightarrow> marketplace \<Rightarrow> pystr" where
  "spec_combined_text db m = py_lower db (join (u '' '') (spec_record_texts m))"

text \<open>Two records that differ in the names of their skills and commands.\<close>

definition review_plugin :: "jstr \<Rightarrow> jstr \<Rightarrow> plugin" where
  "review_plugin skill_name command_name =
     \<lparr>p_name = Str (u ''helper''), p_description = Str (u ''Review pull requests.''),
      p_skills = [\<lparr>e_name = skill_name, e_description = Str (u ''Find bugs'')\<rparr>],
      p_commands = [\<lparr>e_name = command_name, e_description = Missing\<rparr>]\<rparr>"

definition review_record :: "jstr \<Rightarrow> jstr \<Rightarrow> marketplace" where
  "review_record skill_name command_name =
     \<lparr>m_repo = u ''x/y'', m_name = Missing, m_description = Missing,
      m_plugins = [review_plugin skill_name command_name]\<rparr>"

text \<open>Records without any description whose plugins carry a \<^verbatim>\<open>null\<close> name.\<close>

definition null_name_record :: marketplace where
  "null_name_record =
     \<lparr>m_repo = u ''x/y'', m_name = Missing, m_description = Missing,
      m_plugins = [\<lparr>p_name = Null, p_description = Missing, p_skills = [], p_commands = []\<rparr>]\<rparr>"

definition null_and_commit_record :: marketplace where
  "null_and_commit_record =
     \<lparr>m_repo = u ''x/y'', m_name = Missing, m_description = Null,
      m_plugins =
        [\<lparr>p_name = Null, p_description = Missing, p_skills = [], p_commands = []\<rparr>,
         \<lparr>p_name = Str (u ''commit-helper''), p_description = Missing, p_skills = [],
          p_commands = []\<rparr>]\<rparr>"

definition commit_helper_record :: marketplace where
  "commit_helper_record =
     \<lparr>m_repo = u ''x/y'', m_name = Missing, m_description = Missing,
      m_plugins =
        [\<lparr>p_name = Str (u ''commit-helper''), p_description = Missing, p_skills = [],
          p_commands = []\<rparr>]\<rparr>"

section \<open>Sentence extraction, as the specification words it\<close>

text \<open>
  The first sentence is obtained by splitting at the first Latin terminator (any of
  \<^verbatim>\<open>.\<close>, \<^verbatim>\<open>!\<close>, \<^verbatim>\<open>?\<close>); only when it is shorter than 10 characters while the source is
  longer than 20 is the CJK match attempted (else the full trimmed source); otherwise the
  first-sentence match against all terminators is used.
\<close>

definition spec_sentence_of :: "unicode_db \<Rightarrow> pystr \<Rightarrow> pystr" where
  "spec_sentence_of db source =
     (let first_sentence = strip db (takeWhile (\<lambda>c. c \<notin> set [46, 33, 63]) source)
      in if length first_sentence < 10 \<and> length source > 20
         then (case match_cjk source of Some g \<Rightarrow> strip db g | None \<Rightarrow> strip db source)
         else (case match_sentence source of Some g \<Rightarrow> strip db g | None \<Rightarrow> strip db source))"

text \<open>Sample descriptions.\<close>

definition exclamation_text :: pystr where
  "exclamation_text = u ''Hi! This is a long description text''"

definition versioned_cjk_text :: pystr where
  "versioned_cjk_text =
     u ''v1.0 '' @ [26500, 24314, 20255, 22823, 30340, 19996, 35199, 12290, 26356, 22810,
       25991, 23383, 12290, 36824, 26377, 26356, 22810, 30340, 25991, 23383]"

definition long_text :: pystr where
  "long_text = replicate 200 97"

definition long_record :: marketplace where
  "long_record = \<lparr>m_repo = u ''x/y'', m_name = Missing, m_description = Str long_text,
     m_plugins = []\<rparr>"

definition long_result :: analysis where
  "long_result =
     \<lparr>r_repo = u ''x/y'',
      r_function = Some (replicate 147 97 @ u ''...''),
      r_value = Some (u ''Streamline development workflows and reduce manual effort.''),
      stage_lifecycle_arch = [u ''general''],
      r_integration = None\<rparr>"

text \<open>A record without description and without plugins, whose repo names a language.\<close>

definition typescript_repo_record :: marketplace where
  "typescript_repo_record =
     \<lparr>m_repo = u ''me/TypeScript-tools'', m_name = Missing, m_description = Missing,
      m_plugins = []\<rparr>"

definition typescript_repo_result :: analysis where
  "typescript_repo_result =
     \<lparr>r_repo = u ''me/TypeScript-tools'', r_function = None, r_value = None,
      stage_lifecycle_arch = [u ''general''], r_integration = None\<rparr>"

section \<open>Evaluation on concrete text\<close>

lemmas text_simps = u_def py_lower_def lower_cp_def

lemmas regex_simps =
  re_search_def match_here_def boundary_def word_at_def head_def is_word_def atom_ok_def

subsection \<open>The end-to-end scenario\<close>

lemma k8s_combined:
  "combined_text db k8s_record = u ''a tool for kubernetes deployment automation.''"
  by (simp add: k8s_record_def combined_text_def collect_def get_default_def append_if_def
      text_simps)

lemma k8s_integration:
  "detect_integration db (u ''a tool for kubernetes deployment automation.'') nm (u ''x/y'')
     = Some (u ''Kubernetes'')"
  by (simp add: detect_integration_def integrations_def text_simps)

lemma k8s_tags: "detect_tags db (u ''a tool for kubernetes deployment automation.'') nm = {}"
  by (simp add: detect_tags_def tag_patterns_def tag_step_def regex_simps u_def)

lemma k8s_content: "content_pair (u ''a tool for kubernetes deployment automation.'') = None"
  by (simp add: content_pair_def u_def)

lemma k8s_pair:
  "integration_pair (u ''Kubernetes'') =
     (u ''Deploy and manage Kubernetes applications and configurations.'',
      u ''Simplify container orchestration and deployment.'')"
  by (simp add: integration_pair_def u_def)

lemma k8s_generate:
  "generate_descriptions db k8s_record (u ''a tool for kubernetes deployment automation.'')
       (Some (u ''Kubernetes'')) tg =
     Inr (Some (u ''Deploy and manage Kubernetes applications and configurations.''),
          Some (u ''Simplify container orchestration and deployment.''))"
proof -
  have "truthy (get_default (m_description k8s_record) [])"
    by (simp add: k8s_record_def get_default_def truthy_def u_def)
  moreover have "truthy (Some (u ''Kubernetes''))"
    by (simp add: truthy_def u_def)
  ultimately show ?thesis
    by (simp add: generate_descriptions_def k8s_content k8s_pair)
qed

lemma k8s_run: "analyze_marketplace db k8s_record idx = Inr k8s_result"
proof -
  have repo: "m_repo k8s_record = u ''x/y''"
    by (simp add: k8s_record_def)
  show ?thesis
    unfolding analyze_marketplace_def Let_def k8s_combined repo k8s_integration k8s_tags
      k8s_generate
    by (simp add: tags_output_def k8s_result_def)
qed

text \<open>
  Claim C1, as amended. For the record with repo \<open>x/y\<close>, description
  \<open>A tool for Kubernetes deployment automation.\<close> and no plugins, the transform returns the
  integration \<open>Kubernetes\<close>, the tag list \<open>general\<close> alone, and the canned Kubernetes pair:
  both the function and the value sentence come from the integration branch.
\<close>

theorem k8s_scenario:
  "analyze_marketplace db k8s_record idx =
     Inr \<lparr>r_repo = u ''x/y'',
          r_function = Some (u ''Deploy and manage Kubernetes applications and configurations.''),
          r_value = Some (u ''Simplify container orchestration and deployment.''),
          stage_lifecycle_arch = [u ''general''],
          r_integration = Some (u ''Kubernetes'')\<rparr>"
  using k8s_run [of db idx] by (simp add: k8s_result_def)

text \<open>
  Claim C1 as stated fails: on that record the tag list does not contain \<open>devops\<close> and the
  function sentence is not the description.
\<close>

theorem k8s_scenario_counterexample:
  "analyze_marketplace ascii_only_db k8s_record 651 = Inr k8s_result
   \<and> u ''devops'' \<notin> set (stage_lifecycle_arch k8s_result)
   \<and> r_function k8s_result \<noteq> Some (u ''A tool for Kubernetes deployment automation.'')"
  using k8s_run [of ascii_only_db 651] by (simp add: k8s_result_def u_def)

section \<open>Substrings and the table scan\<close>

lemma startswith_prefix: "startswith s p \<longleftrightarrow> prefix p s"
  by (induction s p rule: startswith.induct) auto

lemma str_in_sublist: "str_in sub s \<longleftrightarrow> sublist sub s"
proof (induction s)
  case Nil
  then show ?case by simp
next
  case (Cons x xs)
  then show ?case
    by (cases sub) (simp_all add: startswith_prefix sublist_Cons_right)
qed

lemma scan_integrations_find:
  "scan_integrations db combined repo tbl =
     map_option snd (find (\<lambda>(keyword, name). sublist keyword combined \<or> sublist keyword (py_lower db repo)) tbl)"
proof (induction tbl)
  case Nil
  then show ?case by simp
next
  case (Cons e tbl)
  then show ?case by (cases e) (simp add: str_in_sublist)
qed

lemma scan_integrations_first:
  "i < length tbl \<Longrightarrow> sublist (fst (tbl ! i)) combined \<or> sublist (fst (tbl ! i)) (py_lower db repo) \<Longrightarrow>
   (\<forall>j<i. \<not> sublist (fst (tbl ! j)) combined \<and> \<not> sublist (fst (tbl ! j)) (py_lower db repo)) \<Longrightarrow>
   scan_integrations db combined repo tbl = Some (snd (tbl ! i))"
proof (induction tbl arbitrary: i)
  case Nil
  then show ?case by simp
next
  case (Cons e tbl)
  obtain k n where e: "e = (k, n)" by (cases e)
  show ?case
  proof (cases i)
    case 0
    with Cons.prems e show ?thesis by (auto simp: str_in_sublist)
  next
    case (Suc i')
    from Cons.prems(3) Suc have "\<not> sublist k combined \<and> \<not> sublist k (py_lower db repo)"
      using e by force
    moreover have "scan_integrations db combined repo tbl = Some (snd (tbl ! i'))"
    proof (rule Cons.IH)
      show "i' < length tbl" using Cons.prems(1) Suc by simp
      show "sublist (fst (tbl ! i')) combined \<or> sublist (fst (tbl ! i')) (py_lower db repo)"
        using Cons.prems(2) Suc by simp
      show "\<forall>j<i'. \<not> sublist (fst (tbl ! j)) combined \<and> \<not> sublist (fst (tbl ! j)) (py_lower db repo)"
        using Cons.prems(3) Suc by auto
    qed
    ultimately show ?thesis using e Suc by (simp add: str_in_sublist)
  qed
qed

lemma scan_integrations_Some:
  "scan_integrations db combined repo tbl = Some l \<Longrightarrow>
   \<exists>k. (k, l) \<in> set tbl \<and> (sublist k combined \<or> sublist k (py_lower db repo))"
  by (induction tbl) (auto simp: str_in_sublist split: if_splits)

lemma scan_integrations_None:
  "scan_integrations db combined repo tbl = None \<longleftrightarrow>
   (\<forall>(k, l) \<in> set tbl. \<not> sublist k combined \<and> \<not> sublist k (py_lower db repo))"
  by (induction tbl) (auto simp: str_in_sublist split: if_splits)

lemma generic_labels_not_in_table:
  "l \<in> snd ` set integrations \<Longrightarrow>
     l \<notin> {u ''React'', u ''Python'', u ''TypeScript'', u ''.NET'', u ''Swift''}"
  by (auto simp: integrations_def u_def)

lemma keywords_nonempty: "(k, l) \<in> set integrations \<Longrightarrow> k \<noteq> []"
  by (auto simp: integrations_def u_def)

subsection \<open>Integration classification\<close>

lemma detect_integration_find:
  "detect_integration db combined all_names repo =
     (case find (\<lambda>(keyword, name). sublist keyword combined \<or> sublist keyword (py_lower db repo))
             integrations of
        None \<Rightarrow> generic_integration combined
      | Some (keyword, name) \<Rightarrow> Some name)"
  by (simp add: detect_integration_def scan_integrations_find split: option.splits prod.splits)

lemma detect_integration_first:
  assumes "i < length integrations"
    and "sublist (fst (integrations ! i)) combined"
    and "\<forall>j<i. \<not> sublist (fst (integrations ! j)) combined
               \<and> \<not> sublist (fst (integrations ! j)) (py_lower db repo)"
  shows "detect_integration db combined all_names repo = Some (snd (integrations ! i))"
  using scan_integrations_first [of i integrations combined db repo] assms
  by (simp add: detect_integration_def)

lemma detect_integration_table_label:
  assumes "(keyword, name) \<in> set integrations" and "sublist keyword combined"
  shows "\<exists>k l. (k, l) \<in> set integrations
           \<and> (sublist k combined \<or> sublist k (py_lower db repo))
           \<and> detect_integration db combined all_names repo = Some l
           \<and> l \<notin> {u ''React'', u ''Python'', u ''TypeScript'', u ''.NET'', u ''Swift''}"
proof -
  have "scan_integrations db combined repo integrations \<noteq> None"
    using assms by (auto simp: scan_integrations_None)
  then obtain l where l: "scan_integrations db combined repo integrations = Some l"
    by auto
  then obtain k where k: "(k, l) \<in> set integrations"
      "sublist k combined \<or> sublist k (py_lower db repo)"
    using scan_integrations_Some by blast
  from k(1) have "l \<in> snd ` set integrations"
    by force
  then have "l \<notin> {u ''React'', u ''Python'', u ''TypeScript'', u ''.NET'', u ''Swift''}"
    by (rule generic_labels_not_in_table)
  with l k show ?thesis
    by (auto simp: detect_integration_def)
qed

lemma django_index: "integrations ! 68 = (u ''django'', u ''Django'') \<and> 68 < length integrations"
  by (simp add: integrations_def)

lemma django_unblocked:
  "\<forall>j<68. \<not> sublist (fst (integrations ! j)) (u ''django rest api in python'')
           \<and> \<not> sublist (fst (integrations ! j)) (py_lower ascii_only_db (u ''x/y''))"
proof -
  have "list_all (\<lambda>e. \<not> sublist (fst e) (u ''django rest api in python'')
             \<and> \<not> sublist (fst e) (py_lower ascii_only_db (u ''x/y'')))
          (take 68 integrations)"
    by (simp add: integrations_def str_in_sublist [symmetric] text_simps)
  moreover have "length (take 68 integrations) = 68"
    using django_index by simp
  ultimately show ?thesis
    by (simp add: list_all_length)
qed

lemma django_python_text:
  "sublist (u ''django'') (u ''django rest api in python'')
   \<and> sublist (u ''python'') (u ''django rest api in python'')"
  by (simp add: str_in_sublist [symmetric] u_def)

text \<open>
  Claim C4, as amended. Integration classification scans the table in its order and returns
  the label of the first pair whose keyword occurs in the combined text or in the
  lower-cased repo string; the generic rules run only when no pair matches. Consequently,
  when the combined text contains the keyword of a table pair (a framework, say) and no
  earlier pair matches the combined text or the repo, the result is the label of that pair;
  and whenever the combined text contains any table keyword, the result is the label of a
  matching table pair, never one of the labels that only the generic language rules assign
  (React, Python, TypeScript, .NET, Swift).
\<close>

theorem integration_first_match:
  "detect_integration db combined all_names repo =
     (case find (\<lambda>(keyword, name). sublist keyword combined \<or> sublist keyword (py_lower db repo))
             integrations of
        None \<Rightarrow> generic_integration combined
      | Some (keyword, name) \<Rightarrow> Some name)
   \<and> (i < length integrations \<and> sublist (fst (integrations ! i)) combined
        \<and> (\<forall>j<i. \<not> sublist (fst (integrations ! j)) combined
                  \<and> \<not> sublist (fst (integrations ! j)) (py_lower db repo))
      \<longrightarrow> detect_integration db combined all_names repo = Some (snd (integrations ! i)))
   \<and> ((keyword, name) \<in> set integrations \<and> sublist keyword combined
      \<longrightarrow> (\<exists>k l. (k, l) \<in> set integrations
             \<and> (sublist k combined \<or> sublist k (py_lower db repo))
             \<and> detect_integration db combined all_names repo = Some l
             \<and> l \<notin> {u ''React'', u ''Python'', u ''TypeScript'', u ''.NET'', u ''Swift''}))"
  using detect_integration_find [of db combined all_names repo]
    detect_integration_first [of i combined db repo all_names]
    detect_integration_table_label [of keyword name combined db repo all_names]
  by blast

theorem integration_first_match_witness:
  "(u ''django'', u ''Django'') \<in> set integrations
   \<and> sublist (u ''django'') (u ''django rest api in python'')
   \<and> sublist (u ''python'') (u ''django rest api in python'')
   \<and> detect_integration ascii_only_db (u ''django rest api in python'') [] (u ''x/y'')
       = Some (u ''Django'')
   \<and> (\<exists>k l. (k, l) \<in> set integrations
         \<and> detect_integration ascii_only_db (u ''django rest api in python'') [] (u ''x/y'')
             = Some l
         \<and> l \<noteq> u ''Python'')"
proof -
  let ?c = "u ''django rest api in python''"
  note inst = integration_first_match [of ascii_only_db ?c "[]" "u ''x/y''" 68 "u ''django''"
      "u ''Django''"]
  have mem: "(u ''django'', u ''Django'') \<in> set integrations"
    using django_index nth_mem [of 68 integrations] by simp
  have "68 < length integrations \<and> sublist (fst (integrations ! 68)) ?c"
    using django_index django_python_text by simp
  with django_unblocked inst
  have "detect_integration ascii_only_db ?c [] (u ''x/y'') = Some (snd (integrations ! 68))"
    by blast
  then have first: "detect_integration ascii_only_db ?c [] (u ''x/y'') = Some (u ''Django'')"
    using django_index by simp
  from inst mem django_python_text
  have "\<exists>k l. (k, l) \<in> set integrations
         \<and> detect_integration ascii_only_db ?c [] (u ''x/y'') = Some l \<and> l \<noteq> u ''Python''"
    by blast
  with mem django_python_text first show ?thesis
    by blast
qed

text \<open>
  Claim C4 as stated fails. The pair for \<open>elixir\<close> precedes the pair for \<open>phoenix\<close> in the
  table, so a text with both keywords yields the label of the language; and a keyword of an
  earlier pair (\<open>aws\<close>) takes precedence over a framework (\<open>django\<close>) and its language.
\<close>

theorem integration_first_match_counterexample:
  "(u ''phoenix'', u ''Elixir/Phoenix'') \<in> set integrations
   \<and> sublist (u ''phoenix'') (u ''phoenix web framework for elixir'')
   \<and> sublist (u ''elixir'') (u ''phoenix web framework for elixir'')
   \<and> detect_integration ascii_only_db (u ''phoenix web framework for elixir'') [] (u ''x/y'')
       = Some (u ''Elixir'')
   \<and> sublist (u ''django'') (u ''django and python on aws'')
   \<and> sublist (u ''python'') (u ''django and python on aws'')
   \<and> detect_integration ascii_only_db (u ''django and python on aws'') [] (u ''x/y'')
       = Some (u ''AWS'')"
proof -
  have "(u ''phoenix'', u ''Elixir/Phoenix'') \<in> set integrations"
    by (simp add: integrations_def)
  moreover have "sublist (u ''phoenix'') (u ''phoenix web framework for elixir'')
      \<and> sublist (u ''elixir'') (u ''phoenix web framework for elixir'')
      \<and> sublist (u ''django'') (u ''django and python on aws'')
      \<and> sublist (u ''python'') (u ''django and python on aws'')"
    by (simp add: str_in_sublist [symmetric] u_def)
  moreover have "detect_integration ascii_only_db (u ''phoenix web framework for elixir'') []
      (u ''x/y'') = Some (u ''Elixir'')"
    by (simp add: detect_integration_def integrations_def text_simps)
  moreover have "detect_integration ascii_only_db (u ''django and python on aws'') []
      (u ''x/y'') = Some (u ''AWS'')"
    by (simp add: detect_integration_def integrations_def text_simps)
  ultimately show ?thesis
    by blast
qed

lemma generic_integration_empty: "generic_integration [] = None"
  by (simp add: generic_integration_def u_def)

lemma detect_integration_no_table_match:
  assumes "\<forall>(keyword, name) \<in> set integrations.
             \<not> sublist keyword combined \<and> \<not> sublist keyword (py_lower db repo)"
  shows "detect_integration db combined all_names repo = generic_integration combined"
  using assms scan_integrations_None [of db combined repo integrations]
  by (simp add: detect_integration_def)

lemma detect_integration_empty_text:
  assumes "\<forall>(keyword, name) \<in> set integrations. \<not> sublist keyword (py_lower db repo)"
  shows "detect_integration db [] all_names repo = None"
proof -
  have "\<forall>(keyword, name) \<in> set integrations.
          \<not> sublist keyword [] \<and> \<not> sublist keyword (py_lower db repo)"
    using assms keywords_nonempty by fastforce
  then show ?thesis
    using detect_integration_no_table_match [of "[]" db repo all_names]
    by (simp add: generic_integration_empty)
qed

lemma typescript_repo_no_keyword:
  "\<forall>(keyword, name) \<in> set integrations.
     \<not> sublist keyword (py_lower ascii_only_db (u ''me/TypeScript-tools''))"
  by (simp add: integrations_def str_in_sublist [symmetric] text_simps)

lemma analyze_marketplace_integration:
  "analyze_marketplace db m idx = Inr r \<Longrightarrow>
   r_integration r = detect_integration db (combined_text db m) (all_names_text db m) (m_repo m)"
  by (auto simp: analyze_marketplace_def Let_def split: sum.splits prod.splits)

lemma analyze_marketplace_empty_text:
  assumes "analyze_marketplace db m idx = Inr r" and "combined_text db m = []"
    and "\<forall>(keyword, name) \<in> set integrations. \<not> sublist keyword (py_lower db (m_repo m))"
  shows "r_integration r = None"
  using analyze_marketplace_integration [OF assms(1)]
    detect_integration_empty_text [OF assms(3), of "all_names_text db m"]
  by (simp add: assms(2))

lemma typescript_repo_run:
  "analyze_marketplace ascii_only_db typescript_repo_record idx = Inr typescript_repo_result"
proof -
  have comb: "combined_text ascii_only_db typescript_repo_record = []"
    by (simp add: combined_text_def collect_def typescript_repo_record_def get_default_def
        append_if_def py_lower_def)
  have repo: "m_repo typescript_repo_record = u ''me/TypeScript-tools''"
    by (simp add: typescript_repo_record_def)
  have integration: "detect_integration ascii_only_db [] nm (u ''me/TypeScript-tools'') = None"
    for nm
    using typescript_repo_no_keyword by (rule detect_integration_empty_text)
  have tags: "detect_tags ascii_only_db [] nm = {}" for nm
    by (simp add: detect_tags_def tag_patterns_def tag_step_def regex_simps u_def)
  have "generate_descriptions ascii_only_db typescript_repo_record [] None {} = Inr (None, None)"
    by (simp add: generate_descriptions_def guess_from_names_def typescript_repo_record_def
        get_default_def truthy_def)
  then show ?thesis
    unfolding analyze_marketplace_def Let_def comb repo integration tags
    by (simp add: tags_output_def typescript_repo_result_def)
qed

text \<open>
  Claim C10. The rules after the table (React, Python, TypeScript, .NET, Go, Swift) read the
  combined text only: when no table keyword occurs in the combined text or in the
  lower-cased repo, the label is a function of the combined text alone. Hence for an empty
  combined text and a repo without table keyword the label is \<open>None\<close>, whatever else the
  repo contains, also in the analysis of a record.
\<close>

theorem generic_rules_ignore_repo:
  "((\<forall>(keyword, name) \<in> set integrations.
        \<not> sublist keyword combined \<and> \<not> sublist keyword (py_lower db repo))
      \<longrightarrow> detect_integration db combined all_names repo = generic_integration combined)
   \<and> ((\<forall>(keyword, name) \<in> set integrations. \<not> sublist keyword (py_lower db repo))
      \<longrightarrow> detect_integration db [] all_names repo = None)
   \<and> (analyze_marketplace db m idx = Inr r \<and> combined_text db m = []
        \<and> (\<forall>(keyword, name) \<in> set integrations. \<not> sublist keyword (py_lower db (m_repo m)))
      \<longrightarrow> r_integration r = None)"
  using detect_integration_no_table_match [of combined db repo all_names]
    detect_integration_empty_text [of db repo all_names]
    analyze_marketplace_empty_text [of db m idx r]
  by blast

theorem generic_rules_ignore_repo_witness:
  "sublist (u ''typescript'') (py_lower ascii_only_db (u ''me/TypeScript-tools''))
   \<and> detect_integration ascii_only_db [] [] (u ''me/TypeScript-tools'') = generic_integration []
   \<and> detect_integration ascii_only_db [] [] (u ''me/TypeScript-tools'') = None
   \<and> analyze_marketplace ascii_only_db typescript_repo_record 651 = Inr typescript_repo_result
   \<and> r_integration typescript_repo_result = None"
proof -
  note inst = generic_rules_ignore_repo [of "[]" ascii_only_db "u ''me/TypeScript-tools''" "[]"
      typescript_repo_record 651 typescript_repo_result]
  have ts: "sublist (u ''typescript'') (py_lower ascii_only_db (u ''me/TypeScript-tools''))"
    by (simp add: str_in_sublist [symmetric] text_simps)
  have none: "\<forall>(keyword, name) \<in> set integrations.
      \<not> sublist keyword (py_lower ascii_only_db (u ''me/TypeScript-tools''))"
    by (rule typescript_repo_no_keyword)
  have both: "\<forall>(keyword, name) \<in> set integrations.
      \<not> sublist keyword [] \<and> \<not> sublist keyword (py_lower ascii_only_db (u ''me/TypeScript-tools''))"
    using none keywords_nonempty by fastforce
  have generic: "detect_integration ascii_only_db [] [] (u ''me/TypeScript-tools'')
      = generic_integration []"
    using inst both by blast
  have label: "detect_integration ascii_only_db [] [] (u ''me/TypeScript-tools'') = None"
    using inst none by blast
  have comb: "combined_text ascii_only_db typescript_repo_record = []"
    by (simp add: combined_text_def collect_def typescript_repo_record_def get_default_def
        append_if_def py_lower_def)
  have "m_repo typescript_repo_record = u ''me/TypeScript-tools''"
    by (simp add: typescript_repo_record_def)
  with none have "\<forall>(keyword, name) \<in> set integrations.
      \<not> sublist keyword (py_lower ascii_only_db (m_repo typescript_repo_record))"
    by simp
  with inst typescript_repo_run [of 651] comb have "r_integration typescript_repo_result = None"
    by blast
  with ts generic label typescript_repo_run [of 651] show ?thesis
    by blast
qed

section \<open>The text aggregator\<close>

lemma append_if_get: "append_if (get f) xs = xs @ text_of f"
  by (cases f) (simp_all add: append_if_def get_def text_of_def)

lemma append_if_get_default: "append_if (get_default f []) xs = xs @ text_of f"
  by (cases f) (simp_all add: append_if_def get_default_def text_of_def)

lemma all_info_skill_step: "all_info (skill_step s st) = all_info st @ text_of (e_description s)"
  by (simp add: skill_step_def Let_def append_if_get)

lemma all_info_command_step:
  "all_info (command_step c st) = all_info st @ text_of (e_description c)"
  by (simp add: command_step_def Let_def append_if_get)

lemma all_info_fold_skill:
  "all_info (fold skill_step ss st)
     = all_info st @ concat (map (\<lambda>s. text_of (e_description s)) ss)"
  by (induction ss arbitrary: st) (simp_all add: all_info_skill_step)

lemma all_info_fold_command:
  "all_info (fold command_step cs st)
     = all_info st @ concat (map (\<lambda>c. text_of (e_description c)) cs)"
  by (induction cs arbitrary: st) (simp_all add: all_info_command_step)

lemma all_info_plugin_step: "all_info (plugin_step p st) = all_info st @ spec_plugin_texts p"
  by (simp add: plugin_step_def Let_def all_info_fold_command all_info_fold_skill append_if_get
      spec_plugin_texts_def)

lemma all_info_fold_plugin:
  "all_info (fold plugin_step ps st) = all_info st @ concat (map spec_plugin_texts ps)"
  by (induction ps arbitrary: st) (simp_all add: all_info_plugin_step)

lemma all_info_collect: "all_info (collect m) = spec_record_texts m"
  by (simp add: collect_def Let_def all_info_fold_plugin append_if_get_default
      spec_record_texts_def)

lemma combined_text_spec: "combined_text db m = spec_combined_text db m"
  by (simp add: combined_text_def spec_combined_text_def all_info_collect)

lemma map_cong_rel:
  assumes "list_all2 P xs ys" and "\<And>x y. P x y \<Longrightarrow> f x = g y"
  shows "map f xs = map g ys"
  using assms by (induction rule: list_all2_induct) simp_all

text \<open>Two records agree on every description, at every level.\<close>

lemma same_descriptions_same_texts:
  assumes "m_description m = m_description m'"
    and "list_all2 (\<lambda>p p'. p_description p = p_description p'
            \<and> map e_description (p_skills p) = map e_description (p_skills p')
            \<and> map e_description (p_commands p) = map e_description (p_commands p'))
          (m_plugins m) (m_plugins m')"
  shows "spec_record_texts m = spec_record_texts m'"
proof -
  have entries: "concat (map (\<lambda>e. text_of (e_description e)) es)
      = concat (map text_of (map e_description es))" for es :: "entry list"
    by (simp add: comp_def)
  have "map spec_plugin_texts (m_plugins m) = map spec_plugin_texts (m_plugins m')"
    using assms(2)
  proof (rule map_cong_rel)
    fix p p' :: plugin
    assume "p_description p = p_description p'
        \<and> map e_description (p_skills p) = map e_description (p_skills p')
        \<and> map e_description (p_commands p) = map e_description (p_commands p')"
    then show "spec_plugin_texts p = spec_plugin_texts p'"
      unfolding spec_plugin_texts_def entries by simp
  qed
  with assms(1) show ?thesis
    by (simp add: spec_record_texts_def)
qed

lemma no_texts:
  fixes es :: "entry list"
  assumes "list_all (\<lambda>e. text_of (e_description e) = []) es"
  shows "concat (map (\<lambda>e. text_of (e_description e)) es) = []"
  using assms
proof (induction es)
  case Nil
  show ?case by simp
next
  case (Cons e es)
  from Cons.prems have h: "text_of (e_description e) = []"
    and t: "list_all (\<lambda>e. text_of (e_description e) = []) es"
    by (simp_all only: list.pred_inject)
  have "concat (map (\<lambda>e. text_of (e_description e)) es) = []"
    using Cons.IH t .
  with h show ?case
    by (simp only: list.map concat.simps append_Nil)
qed

lemma text_of_Str: "s \<noteq> [] \<Longrightarrow> text_of (Str s) = [s]"
  by (simp add: text_of_def)

lemma plugin_description_only:
  assumes "p_description p = Str s" and "s \<noteq> []"
    and "list_all (\<lambda>e. text_of (e_description e) = []) (p_skills p)"
    and "list_all (\<lambda>e. text_of (e_description e) = []) (p_commands p)"
  shows "spec_plugin_texts p = [s]"
  unfolding spec_plugin_texts_def no_texts [OF assms(3)] no_texts [OF assms(4)]
  using assms(1,2) by (simp add: text_of_Str)

lemma abc_join: "py_lower db (join (u '' '') [u ''A'', u ''B'', u ''C'']) = u ''a b c''"
  by (simp add: text_simps)

lemma abc_texts:
  assumes "m_description m = Str (u ''A'')" and "m_plugins m = [p1, p2]"
    and "p_description p1 = Str (u ''B'')" and "p_description p2 = Str (u ''C'')"
    and "list_all (\<lambda>e. text_of (e_description e) = [])
           (p_skills p1 @ p_commands p1 @ p_skills p2 @ p_commands p2)"
  shows "combined_text db m = u ''a b c''"
proof -
  from assms(5) have none:
    "list_all (\<lambda>e. text_of (e_description e) = []) (p_skills p1)"
    "list_all (\<lambda>e. text_of (e_description e) = []) (p_commands p1)"
    "list_all (\<lambda>e. text_of (e_description e) = []) (p_skills p2)"
    "list_all (\<lambda>e. text_of (e_description e) = []) (p_commands p2)"
    by (simp_all only: list_all_append)
  have ne: "u ''A'' \<noteq> []" "u ''B'' \<noteq> []" "u ''C'' \<noteq> []"
    by (simp_all add: u_def)
  have "spec_plugin_texts p1 = [u ''B'']"
    using assms(3) ne(2) none(1,2) by (rule plugin_description_only)
  moreover have "spec_plugin_texts p2 = [u ''C'']"
    using assms(4) ne(3) none(3,4) by (rule plugin_description_only)
  moreover have "text_of (m_description m) = [u ''A'']"
    using assms(1) ne(1) by (simp add: text_of_Str)
  ultimately have "spec_record_texts m = [u ''A'', u ''B'', u ''C'']"
    using assms(2) by (simp add: spec_record_texts_def)
  then show ?thesis
    unfolding combined_text_spec spec_combined_text_def by (simp only: abc_join)
qed

text \<open>
  Claim C6. The combined text is the lower-cased join, with single spaces, of the record's
  description (if present), then for each plugin in list order its description (if
  present), its skills' descriptions in order and its commands' descriptions in order.
  Names, the repo and everything else never contribute: two records with the same
  descriptions at every level have the same combined text. A record with description \<open>A\<close>
  and two plugins with descriptions \<open>B\<close> and \<open>C\<close> (and no skill or command description)
  yields \<open>a b c\<close>.
\<close>

theorem combined_text_aggregation:
  "combined_text db m = py_lower db (join (u '' '') (spec_record_texts m))
   \<and> (m_description m = m_description m'
        \<and> list_all2 (\<lambda>p p'. p_description p = p_description p'
              \<and> map e_description (p_skills p) = map e_description (p_skills p')
              \<and> map e_description (p_commands p) = map e_description (p_commands p'))
            (m_plugins m) (m_plugins m')
      \<longrightarrow> combined_text db m = combined_text db m')
   \<and> (m_description m = Str (u ''A'') \<and> m_plugins m = [p1, p2]
        \<and> p_description p1 = Str (u ''B'') \<and> p_description p2 = Str (u ''C'')
        \<and> list_all (\<lambda>e. text_of (e_description e) = [])
            (p_skills p1 @ p_commands p1 @ p_skills p2 @ p_commands p2)
      \<longrightarrow> combined_text db m = u ''a b c'')"
  using combined_text_spec [of db m] combined_text_spec [of db m']
    same_descriptions_same_texts [of m m'] abc_texts [of m p1 p2 db]
  by (simp add: spec_combined_text_def)

theorem combined_text_aggregation_witness:
  "combined_text ascii_only_db
     \<lparr>m_repo = u ''Owner/Repo'', m_name = Str (u ''N''), m_description = Str (u ''A''),
      m_plugins = [review_plugin (Str (u ''S'')) Null, review_plugin Missing (Str (u ''T''))]\<rparr>
   = u ''a review pull requests. find bugs review pull requests. find bugs''
   \<and> combined_text ascii_only_db
     \<lparr>m_repo = u ''Owner/Repo'', m_name = Str (u ''N''), m_description = Str (u ''A''),
      m_plugins =
        [\<lparr>p_name = Str (u ''P''), p_description = Str (u ''B''),
          p_skills = [\<lparr>e_name = Str (u ''S''), e_description = Missing\<rparr>], p_commands = []\<rparr>,
         \<lparr>p_name = Null, p_description = Str (u ''C''), p_skills = [],
          p_commands = [\<lparr>e_name = Str (u ''T''), e_description = Null\<rparr>]\<rparr>]\<rparr>
   = u ''a b c''
   \<and> combined_text ascii_only_db (review_record (Str (u ''Scan'')) Missing)
     = combined_text ascii_only_db (review_record Null (Str (u ''Fix'')))"
proof -
  let ?p1 = "\<lparr>p_name = Str (u ''P''), p_description = Str (u ''B''),
      p_skills = [\<lparr>e_name = Str (u ''S''), e_description = Missing\<rparr>], p_commands = []\<rparr>"
  let ?p2 = "\<lparr>p_name = Null, p_description = Str (u ''C''), p_skills = [],
      p_commands = [\<lparr>e_name = Str (u ''T''), e_description = Null\<rparr>]\<rparr>"
  let ?m = "\<lparr>m_repo = u ''Owner/Repo'', m_name = Str (u ''N''), m_description = Str (u ''A''),
      m_plugins = [?p1, ?p2]\<rparr>"
  let ?r = "\<lparr>m_repo = u ''Owner/Repo'', m_name = Str (u ''N''), m_description = Str (u ''A''),
      m_plugins = [review_plugin (Str (u ''S'')) Null, review_plugin Missing (Str (u ''T''))]\<rparr>"
  have hyp: "m_description ?m = Str (u ''A'') \<and> m_plugins ?m = [?p1, ?p2]
      \<and> p_description ?p1 = Str (u ''B'') \<and> p_description ?p2 = Str (u ''C'')
      \<and> list_all (\<lambda>e. text_of (e_description e) = [])
          (p_skills ?p1 @ p_commands ?p1 @ p_skills ?p2 @ p_commands ?p2)"
    by (simp add: text_of_def)
  have abc: "combined_text ascii_only_db ?m = u ''a b c''"
    using combined_text_aggregation [of ascii_only_db ?m ?m ?p1 ?p2] hyp
    by blast
  have "spec_record_texts ?r
      = [u ''A'', u ''Review pull requests.'', u ''Find bugs'', u ''Review pull requests.'',
         u ''Find bugs'']"
    by (simp add: spec_record_texts_def spec_plugin_texts_def review_plugin_def text_of_def u_def)
  then have "py_lower ascii_only_db (join (u '' '') (spec_record_texts ?r))
      = u ''a review pull requests. find bugs review pull requests. find bugs''"
    by (simp add: text_simps)
  then have "combined_text ascii_only_db ?r
      = u ''a review pull requests. find bugs review pull requests. find bugs''"
    using combined_text_aggregation [of ascii_only_db ?r ?r ?p1 ?p2]
    by simp
  moreover
  have "combined_text ascii_only_db (review_record (Str (u ''Scan'')) Missing)
      = combined_text ascii_only_db (review_record Null (Str (u ''Fix'')))"
  proof -
    have "m_description (review_record (Str (u ''Scan'')) Missing)
          = m_description (review_record Null (Str (u ''Fix'')))
        \<and> list_all2 (\<lambda>p p'. p_description p = p_description p'
              \<and> map e_description (p_skills p) = map e_description (p_skills p')
              \<and> map e_description (p_commands p) = map e_description (p_commands p'))
            (m_plugins (review_record (Str (u ''Scan'')) Missing))
            (m_plugins (review_record Null (Str (u ''Fix''))))"
      by (simp add: review_record_def review_plugin_def)
    then show ?thesis
      using combined_text_aggregation [of ascii_only_db
          "review_record (Str (u ''Scan'')) Missing" "review_record Null (Str (u ''Fix''))" ?p1 ?p2]
      by blast
  qed
  ultimately show ?thesis
    using abc by blast
qed

section \<open>Skill and command names\<close>

lemma first_plugin_desc_cong:
  "map p_description ps = map p_description ps' \<Longrightarrow> first_plugin_desc ps = first_plugin_desc ps'"
proof (induction ps arbitrary: ps')
  case Nil
  then show ?case by simp
next
  case (Cons p ps)
  then obtain q qs where "ps' = q # qs"
    by (cases ps') auto
  with Cons show ?case by simp
qed

lemma guess_from_names_cong:
  assumes "m_repo m = m_repo m'" and "map p_name (m_plugins m) = map p_name (m_plugins m')"
  shows "guess_from_names db m = guess_from_names db m'"
proof -
  have "map (\<lambda>p. get_default (p_name p) []) ps = map (\<lambda>n. get_default n []) (map p_name ps)"
    for ps :: "plugin list"
    by simp
  then have "map (\<lambda>p. get_default (p_name p) []) (m_plugins m)
      = map (\<lambda>p. get_default (p_name p) []) (m_plugins m')"
    using assms(2) by (simp only:)
  then show ?thesis
    unfolding guess_from_names_def assms(1) by (simp only:)
qed

lemma generate_descriptions_cong:
  assumes "m_repo m = m_repo m'" and "m_description m = m_description m'"
    and "map p_name (m_plugins m) = map p_name (m_plugins m')"
    and "map p_description (m_plugins m) = map p_description (m_plugins m')"
  shows "generate_descriptions db m combined integration tags
           = generate_descriptions db m' combined integration tags"
  unfolding generate_descriptions_def
    first_plugin_desc_cong [OF assms(4)] guess_from_names_cong [OF assms(1,3)] assms(2)
  by (rule refl)

text \<open>
  Claim C9. Two records with the same repo, the same descriptions at every level and the
  same plugin names, which differ only in the names of skills and commands, have the same
  analysis (or fail alike): those names reach the name text, which neither the integration
  classifier, the tag extractor nor the description generator reads.
\<close>

theorem skill_command_names_irrelevant:
  assumes "m_repo m = m_repo m'" and "m_name m = m_name m'"
    and "m_description m = m_description m'"
    and "list_all2 (\<lambda>p p'. p_name p = p_name p' \<and> p_description p = p_description p'
            \<and> map e_description (p_skills p) = map e_description (p_skills p')
            \<and> map e_description (p_commands p) = map e_description (p_commands p'))
          (m_plugins m) (m_plugins m')"
  shows "analyze_marketplace db m idx = analyze_marketplace db m' idx"
proof -
  have names: "map p_name (m_plugins m) = map p_name (m_plugins m')"
    using assms(4) by (rule map_cong_rel) simp
  have descs: "map p_description (m_plugins m) = map p_description (m_plugins m')"
    using assms(4) by (rule map_cong_rel) simp
  have "list_all2 (\<lambda>p p'. p_description p = p_description p'
            \<and> map e_description (p_skills p) = map e_description (p_skills p')
            \<and> map e_description (p_commands p) = map e_description (p_commands p'))
          (m_plugins m) (m_plugins m')"
    using assms(4) by (rule list_all2_mono) simp
  with assms(3) have "spec_record_texts m = spec_record_texts m'"
    by (rule same_descriptions_same_texts)
  then have comb: "combined_text db m = combined_text db m'"
    by (simp add: combined_text_spec spec_combined_text_def)
  have integration: "detect_integration db c (all_names_text db m) r
      = detect_integration db c (all_names_text db m') r" for c r
    by (simp add: detect_integration_def)
  have tags: "detect_tags db c (all_names_text db m) = detect_tags db c (all_names_text db m')"
    for c
    by (simp add: detect_tags_def)
  show ?thesis
    unfolding analyze_marketplace_def Let_def comb assms(1) integration tags
      generate_descriptions_cong [OF assms(1,3) names descs]
    by (rule refl)
qed

theorem skill_command_names_irrelevant_witness:
  "all_names_text ascii_only_db (review_record (Str (u ''Scan'')) Missing) = u ''helper scan''
   \<and> all_names_text ascii_only_db (review_record Null (Str (u ''Fix''))) = u ''helper fix''
   \<and> analyze_marketplace ascii_only_db (review_record (Str (u ''Scan'')) Missing) 651
       = analyze_marketplace ascii_only_db (review_record Null (Str (u ''Fix''))) 651"
proof -
  have "all_names_text ascii_only_db (review_record (Str (u ''Scan'')) Missing) = u ''helper scan''"
    by (simp add: all_names_text_def collect_def plugin_step_def skill_step_def command_step_def
        review_record_def review_plugin_def get_def get_default_def append_if_def text_simps)
  moreover
  have "all_names_text ascii_only_db (review_record Null (Str (u ''Fix''))) = u ''helper fix''"
    by (simp add: all_names_text_def collect_def plugin_step_def skill_step_def command_step_def
        review_record_def review_plugin_def get_def get_default_def append_if_def text_simps)
  moreover
  have "analyze_marketplace ascii_only_db (review_record (Str (u ''Scan'')) Missing) 651
       = analyze_marketplace ascii_only_db (review_record Null (Str (u ''Fix''))) 651"
    by (rule skill_command_names_irrelevant) (simp_all add: review_record_def review_plugin_def)
  ultimately show ?thesis
    by blast
qed

section \<open>The tag extractor\<close>

lemma fold_tag_step:
  "fold (tag_step db combined) pts acc
     = acc \<union> {tag. \<exists>pattern. (pattern, tag) \<in> set pts \<and> re_search db pattern combined}"
proof (induction pts arbitrary: acc)
  case Nil
  then show ?case by simp
next
  case (Cons pt pts)
  obtain pattern tag where pt: "pt = (pattern, tag)"
    by (cases pt)
  show ?case
    unfolding fold_simps Cons.IH by (auto simp: pt tag_step_def)
qed

lemma detect_tags_set:
  "detect_tags db combined all_names
     = {tag. \<exists>pattern. (pattern, tag) \<in> set tag_patterns \<and> re_search db pattern combined}"
  by (simp add: detect_tags_def fold_tag_step)

lemma finite_detect_tags: "finite (detect_tags db combined all_names)"
proof -
  have "detect_tags db combined all_names \<subseteq> snd ` set tag_patterns"
    unfolding detect_tags_set by force
  then show ?thesis
    by (rule finite_subset) simp
qed

lemma tags_output_sorted:
  assumes "finite tags" and "tags \<noteq> {}"
  shows "sorted_wrt (<) (tags_output tags) \<and> set (tags_output tags) = tags"
  using assms by (simp add: tags_output_def strict_sorted_iff)

lemma tags_output_general: "tags_output {} = [u ''general'']"
  by (simp add: tags_output_def)

lemma tags_output_nonempty: "finite tags \<Longrightarrow> tags_output tags \<noteq> []"
  by (auto simp: tags_output_def u_def)

lemma analyze_marketplace_tags:
  "analyze_marketplace db m idx = Inr r \<Longrightarrow>
   stage_lifecycle_arch r = tags_output (detect_tags db (combined_text db m) (all_names_text db m))"
  by (auto simp: analyze_marketplace_def Let_def split: sum.splits prod.splits)

lemma fix_ui_tags:
  "detect_tags ascii_only_db (u ''fix the ui, then deploy'') []
     = {u ''debugging'', u ''frontend'', u ''deployment''}"
  by (simp add: detect_tags_def tag_patterns_def tag_step_def regex_simps u_def insert_commute)

lemma no_tag_text: "detect_tags ascii_only_db (u ''hello world'') [] = {}"
  by (simp add: detect_tags_def tag_patterns_def tag_step_def regex_simps u_def)

text \<open>
  Claim C5. Tag extraction tests every pattern of the table against the combined text on
  its own and collects the tags of all patterns that match into a set. The output list is
  that set in strictly ascending order; when no pattern matches it is the single tag
  \<open>general\<close>; it is never empty. The analysis record carries this list.
\<close>

theorem tags_independent_sorted:
  "detect_tags db combined all_names
     = {tag. \<exists>pattern. (pattern, tag) \<in> set tag_patterns \<and> re_search db pattern combined}
   \<and> (detect_tags db combined all_names \<noteq> {}
      \<longrightarrow> sorted_wrt (<) (tags_output (detect_tags db combined all_names))
          \<and> set (tags_output (detect_tags db combined all_names))
              = detect_tags db combined all_names)
   \<and> (detect_tags db combined all_names = {}
      \<longrightarrow> tags_output (detect_tags db combined all_names) = [u ''general''])
   \<and> tags_output (detect_tags db combined all_names) \<noteq> []
   \<and> (analyze_marketplace db m idx = Inr r
      \<longrightarrow> stage_lifecycle_arch r
          = tags_output (detect_tags db (combined_text db m) (all_names_text db m)))"
  using detect_tags_set [of db combined all_names]
    tags_output_sorted [OF finite_detect_tags, of db combined all_names]
    tags_output_nonempty [OF finite_detect_tags, of db combined all_names]
    analyze_marketplace_tags [of db m idx r] tags_output_general
  by presburger

theorem tags_independent_sorted_witness:
  "detect_tags ascii_only_db (u ''fix the ui, then deploy'') []
     = {u ''debugging'', u ''frontend'', u ''deployment''}
   \<and> sorted_wrt (<) (tags_output (detect_tags ascii_only_db (u ''fix the ui, then deploy'') []))
   \<and> set (tags_output (detect_tags ascii_only_db (u ''fix the ui, then deploy'') []))
       = {u ''debugging'', u ''frontend'', u ''deployment''}
   \<and> detect_tags ascii_only_db (u ''hello world'') [] = {}
   \<and> tags_output (detect_tags ascii_only_db (u ''hello world'') []) = [u ''general'']
   \<and> analyze_marketplace ascii_only_db k8s_record 651 = Inr k8s_result
   \<and> stage_lifecycle_arch k8s_result
       = tags_output (detect_tags ascii_only_db (combined_text ascii_only_db k8s_record)
           (all_names_text ascii_only_db k8s_record))"
proof -
  have ne: "detect_tags ascii_only_db (u ''fix the ui, then deploy'') [] \<noteq> {}"
    unfolding fix_ui_tags by simp
  have "sorted_wrt (<) (tags_output (detect_tags ascii_only_db (u ''fix the ui, then deploy'') []))
      \<and> set (tags_output (detect_tags ascii_only_db (u ''fix the ui, then deploy'') []))
          = detect_tags ascii_only_db (u ''fix the ui, then deploy'') []"
    using tags_independent_sorted [of ascii_only_db "u ''fix the ui, then deploy''" "[]"
        k8s_record 651 k8s_result] ne
    by blast
  moreover
  have "tags_output (detect_tags ascii_only_db (u ''hello world'') []) = [u ''general'']"
    using tags_independent_sorted [of ascii_only_db "u ''hello world''" "[]"
        k8s_record 651 k8s_result] no_tag_text
    by blast
  moreover
  have "stage_lifecycle_arch k8s_result
       = tags_output (detect_tags ascii_only_db (combined_text ascii_only_db k8s_record)
           (all_names_text ascii_only_db k8s_record))"
    using tags_independent_sorted [of ascii_only_db "u ''hello world''" "[]"
        k8s_record 651 k8s_result] k8s_run [of ascii_only_db 651]
    by blast
  ultimately show ?thesis
    using fix_ui_tags no_tag_text k8s_run [of ascii_only_db 651]
    by (simp only:)
qed

subsection \<open>The pattern matcher against the meaning of the patterns\<close>

text \<open>
  An alternative matches a piece of text when they have the same length and agree
  character by character (\<open>atom_ok\<close>). The search succeeds exactly when the text splits into
  \<open>pre @ mid @ post\<close> with \<open>mid\<close> matched by some alternative and a word boundary on each side
  of \<open>mid\<close>.
\<close>

lemma match_alt_Some:
  "match_alt alt prev s = Some (l, rest) \<longleftrightarrow>
     (\<exists>mid. s = mid @ rest \<and> list_all2 atom_ok alt mid
        \<and> l = (if mid = [] then prev else Some (last mid)))"
proof (induction alt arbitrary: prev s)
  case Nil
  have "(\<exists>mid. s = mid @ rest \<and> list_all2 atom_ok [] mid
          \<and> l = (if mid = [] then prev else Some (last mid)))
      \<longleftrightarrow> s = rest \<and> l = prev"
    by simp
  then show ?case
    by (simp add: eq_commute conj_commute)
next
  case (Cons a as)
  let ?R = "\<lambda>s. \<exists>mid. s = mid @ rest \<and> list_all2 atom_ok (a # as) mid
      \<and> l = (if mid = [] then prev else Some (last mid))"
  have shape: "?R s \<longleftrightarrow> (\<exists>c cs mid'. s = c # cs \<and> atom_ok a c \<and> cs = mid' @ rest
      \<and> list_all2 atom_ok as mid' \<and> l = (if mid' = [] then Some c else Some (last mid')))"
  proof
    assume "?R s"
    then obtain mid where h: "s = mid @ rest" "list_all2 atom_ok (a # as) mid"
        "l = (if mid = [] then prev else Some (last mid))"
      by blast
    from h(2) obtain c mid' where m: "mid = c # mid'" "atom_ok a c" "list_all2 atom_ok as mid'"
      unfolding list_all2_Cons1 by blast
    have "l = (if mid' = [] then Some c else Some (last mid'))"
      using h(3) m(1) by simp
    with h(1) m show "\<exists>c cs mid'. s = c # cs \<and> atom_ok a c \<and> cs = mid' @ rest
        \<and> list_all2 atom_ok as mid' \<and> l = (if mid' = [] then Some c else Some (last mid'))"
      by simp
  next
    assume "\<exists>c cs mid'. s = c # cs \<and> atom_ok a c \<and> cs = mid' @ rest
        \<and> list_all2 atom_ok as mid' \<and> l = (if mid' = [] then Some c else Some (last mid'))"
    then obtain c cs mid' where h: "s = c # cs" "atom_ok a c" "cs = mid' @ rest"
        "list_all2 atom_ok as mid'" "l = (if mid' = [] then Some c else Some (last mid'))"
      by blast
    then have "s = (c # mid') @ rest \<and> list_all2 atom_ok (a # as) (c # mid')
        \<and> l = (if c # mid' = [] then prev else Some (last (c # mid')))"
      by simp
    then show "?R s"
      by blast
  qed
  show ?case
  proof (cases s)
    case Nil
    then show ?thesis
      unfolding shape by simp
  next
    case (Cons c cs)
    show ?thesis
    proof (cases "atom_ok a c")
      case False
      with Cons show ?thesis
        unfolding shape by simp
    next
      case True
      with Cons Cons.IH [of "Some c" cs] show ?thesis
        unfolding shape by simp
    qed
  qed
qed

lemma match_here_iff:
  "match_here db alt prev s \<longleftrightarrow>
     (\<exists>mid post. s = mid @ post \<and> list_all2 atom_ok alt mid
        \<and> boundary db prev (head s)
        \<and> boundary db (if mid = [] then prev else Some (last mid)) (head post))"
proof
  assume mh: "match_here db alt prev s"
  then have b: "boundary db prev (head s)"
    by (simp add: match_here_def)
  from mh obtain r where r: "match_alt alt prev s = Some r"
    by (cases "match_alt alt prev s") (simp_all add: match_here_def)
  obtain lst rest where lr: "r = (lst, rest)"
    by (cases r)
  from mh r lr have b': "boundary db lst (head rest)"
    by (simp add: match_here_def)
  from r lr have "match_alt alt prev s = Some (lst, rest)"
    by simp
  then obtain mid where "s = mid @ rest" "list_all2 atom_ok alt mid"
      "lst = (if mid = [] then prev else Some (last mid))"
    using match_alt_Some [THEN iffD1] by blast
  with b b' show "\<exists>mid post. s = mid @ post \<and> list_all2 atom_ok alt mid
        \<and> boundary db prev (head s)
        \<and> boundary db (if mid = [] then prev else Some (last mid)) (head post)"
    by blast
next
  assume "\<exists>mid post. s = mid @ post \<and> list_all2 atom_ok alt mid
        \<and> boundary db prev (head s)
        \<and> boundary db (if mid = [] then prev else Some (last mid)) (head post)"
  then obtain mid post where h: "s = mid @ post" "list_all2 atom_ok alt mid"
      "boundary db prev (head s)"
      "boundary db (if mid = [] then prev else Some (last mid)) (head post)"
    by blast
  have "\<exists>m. s = m @ post \<and> list_all2 atom_ok alt m
      \<and> (if mid = [] then prev else Some (last mid)) = (if m = [] then prev else Some (last m))"
    using h(1,2) by blast
  then have "match_alt alt prev s = Some (if mid = [] then prev else Some (last mid), post)"
    by (rule match_alt_Some [THEN iffD2])
  with h(3,4) show "match_here db alt prev s"
    by (simp add: match_here_def)
qed

lemma search_from_iff:
  "search_from db alts prev s \<longleftrightarrow>
     (\<exists>pre rest alt. s = pre @ rest \<and> alt \<in> set alts
        \<and> match_here db alt (if pre = [] then prev else Some (last pre)) rest)"
proof (induction s arbitrary: prev)
  case Nil
  show ?case by (auto simp: list_ex_iff)
next
  case (Cons c cs)
  have "(\<exists>pre rest alt. c # cs = pre @ rest \<and> alt \<in> set alts
          \<and> match_here db alt (if pre = [] then prev else Some (last pre)) rest)
      \<longleftrightarrow> (\<exists>alt \<in> set alts. match_here db alt prev (c # cs))
        \<or> (\<exists>pre' rest alt. cs = pre' @ rest \<and> alt \<in> set alts
             \<and> match_here db alt (if pre' = [] then Some c else Some (last pre')) rest)"
    (is "?L \<longleftrightarrow> ?A \<or> ?B")
  proof
    assume ?L
    then obtain pre rest alt where h: "c # cs = pre @ rest" "alt \<in> set alts"
        "match_here db alt (if pre = [] then prev else Some (last pre)) rest"
      by blast
    show "?A \<or> ?B"
    proof (cases pre)
      case Nil
      with h show ?thesis by auto
    next
      case (Cons p pre')
      with h(1) have "p = c" "cs = pre' @ rest"
        by simp_all
      moreover have "match_here db alt (if pre' = [] then Some c else Some (last pre')) rest"
        using h(3) Cons \<open>p = c\<close> by (cases "pre' = []") simp_all
      ultimately have ?B
        using h(2) by blast
      then show ?thesis ..
    qed
  next
    assume "?A \<or> ?B"
    then show ?L
    proof
      assume ?A
      then obtain alt where "alt \<in> set alts" "match_here db alt prev (c # cs)"
        by blast
      then have "c # cs = [] @ (c # cs) \<and> alt \<in> set alts
          \<and> match_here db alt (if [] = ([] :: pystr) then prev else Some (last [])) (c # cs)"
        by simp
      then show ?L by blast
    next
      assume ?B
      then obtain pre' rest alt where h: "cs = pre' @ rest" "alt \<in> set alts"
          "match_here db alt (if pre' = [] then Some c else Some (last pre')) rest"
        by blast
      then have "c # cs = (c # pre') @ rest \<and> alt \<in> set alts
          \<and> match_here db alt (if c # pre' = [] then prev else Some (last (c # pre'))) rest"
        by (cases "pre' = []") simp_all
      then show ?L by blast
    qed
  qed
  then show ?case
    using Cons.IH [of "Some c"] by (simp add: list_ex_iff)
qed

lemma re_search_iff:
  "re_search db alts s \<longleftrightarrow>
     (\<exists>pre mid post alt. s = pre @ mid @ post \<and> alt \<in> set alts \<and> list_all2 atom_ok alt mid
        \<and> boundary db (if pre = [] then None else Some (last pre)) (head (mid @ post))
        \<and> boundary db (if mid = [] then (if pre = [] then None else Some (last pre))
                        else Some (last mid)) (head post))"
  unfolding re_search_def search_from_iff match_here_iff by blast

section \<open>The default branch: sentence extraction\<close>

lemma split_acc_hd:
  "\<exists>rest. split_acc sep cur s = (cur @ takeWhile (\<lambda>c. c \<noteq> sep) s) # rest"
proof (induction s arbitrary: cur)
  case Nil
  show ?case by simp
next
  case (Cons c s)
  show ?case
  proof (cases "c = sep")
    case True
    then show ?thesis by simp
  next
    case False
    then show ?thesis
      using Cons.IH [of "cur @ [c]"] by simp
  qed
qed

lemma py_split_hd: "\<exists>rest. py_split sep s = takeWhile (\<lambda>c. c \<noteq> sep) s # rest"
  using split_acc_hd [of sep "[]" s] by (simp add: py_split_def)

lemma sentence_of_cases:
  "sentence_of db source =
     Inr (strip db
       (if length (strip db (takeWhile (\<lambda>c. c \<noteq> 46) source)) < 10 \<and> 20 < length source
        then (case match_cjk source of Some g \<Rightarrow> g | None \<Rightarrow> source)
        else (case match_sentence source of Some g \<Rightarrow> g | None \<Rightarrow> source)))"
proof -
  obtain rest where "py_split 46 source = takeWhile (\<lambda>c. c \<noteq> 46) source # rest"
    using py_split_hd by blast
  then show ?thesis
    by (simp add: sentence_of_def Let_def split: option.splits)
qed

lemma newline_no_terminator: "10 \<notin> set cjk_terminators"
  by (simp add: cjk_terminators_def)

lemma cjk_lazy_Some:
  "cjk_lazy acc s = Some g \<longleftrightarrow>
     (\<exists>body t rest. s = body @ t # rest \<and> g = acc @ body @ [t] \<and> t \<in> set cjk_terminators
        \<and> (\<forall>c \<in> set body. c \<notin> set cjk_terminators \<and> c \<noteq> 10))"
proof (induction s arbitrary: acc)
  case Nil
  then show ?case by simp
next
  case (Cons c cs)
  show ?case
  proof (cases "c \<in> set cjk_terminators")
    case True
    have "(\<exists>body t rest. c # cs = body @ t # rest \<and> g = acc @ body @ [t]
            \<and> t \<in> set cjk_terminators \<and> (\<forall>x \<in> set body. x \<notin> set cjk_terminators \<and> x \<noteq> 10))
        \<longleftrightarrow> g = acc @ [c]"
    proof
      assume "\<exists>body t rest. c # cs = body @ t # rest \<and> g = acc @ body @ [t]
            \<and> t \<in> set cjk_terminators \<and> (\<forall>x \<in> set body. x \<notin> set cjk_terminators \<and> x \<noteq> 10)"
      then obtain body t rest where h: "c # cs = body @ t # rest" "g = acc @ body @ [t]"
          "\<forall>x \<in> set body. x \<notin> set cjk_terminators \<and> x \<noteq> 10"
        by blast
      have "body = []"
      proof (cases body)
        case Nil
        then show ?thesis .
      next
        case (Cons b bs)
        with h(1) have "b = c" by simp
        with Cons h(3) True show ?thesis by simp
      qed
      with h(1,2) show "g = acc @ [c]" by simp
    next
      assume "g = acc @ [c]"
      then have "c # cs = [] @ c # cs \<and> g = acc @ [] @ [c] \<and> c \<in> set cjk_terminators
          \<and> (\<forall>x \<in> set []. x \<notin> set cjk_terminators \<and> x \<noteq> 10)"
        using True by simp
      then show "\<exists>body t rest. c # cs = body @ t # rest \<and> g = acc @ body @ [t]
            \<and> t \<in> set cjk_terminators \<and> (\<forall>x \<in> set body. x \<notin> set cjk_terminators \<and> x \<noteq> 10)"
        by blast
    qed
    with True show ?thesis by auto
  next
    case False
    have shape: "(\<exists>body t rest. c # cs = body @ t # rest \<and> g = acc @ body @ [t]
            \<and> t \<in> set cjk_terminators \<and> (\<forall>x \<in> set body. x \<notin> set cjk_terminators \<and> x \<noteq> 10))
        \<longleftrightarrow> c \<noteq> 10 \<and> (\<exists>body t rest. cs = body @ t # rest \<and> g = (acc @ [c]) @ body @ [t]
            \<and> t \<in> set cjk_terminators \<and> (\<forall>x \<in> set body. x \<notin> set cjk_terminators \<and> x \<noteq> 10))"
    proof
      assume "\<exists>body t rest. c # cs = body @ t # rest \<and> g = acc @ body @ [t]
            \<and> t \<in> set cjk_terminators \<and> (\<forall>x \<in> set body. x \<notin> set cjk_terminators \<and> x \<noteq> 10)"
      then obtain body t rest where h: "c # cs = body @ t # rest" "g = acc @ body @ [t]"
          "t \<in> set cjk_terminators" "\<forall>x \<in> set body. x \<notin> set cjk_terminators \<and> x \<noteq> 10"
        by blast
      from h(1,3) False obtain bs where bs: "body = c # bs"
        by (cases body) auto
      with h have "c \<noteq> 10" "cs = bs @ t # rest" "g = (acc @ [c]) @ bs @ [t]"
          "\<forall>x \<in> set bs. x \<notin> set cjk_terminators \<and> x \<noteq> 10"
        by simp_all
      with h(3) show "c \<noteq> 10 \<and> (\<exists>body t rest. cs = body @ t # rest \<and> g = (acc @ [c]) @ body @ [t]
            \<and> t \<in> set cjk_terminators \<and> (\<forall>x \<in> set body. x \<notin> set cjk_terminators \<and> x \<noteq> 10))"
        by blast
    next
      assume "c \<noteq> 10 \<and> (\<exists>body t rest. cs = body @ t # rest \<and> g = (acc @ [c]) @ body @ [t]
            \<and> t \<in> set cjk_terminators \<and> (\<forall>x \<in> set body. x \<notin> set cjk_terminators \<and> x \<noteq> 10))"
      then obtain body t rest where h: "c \<noteq> 10" "cs = body @ t # rest"
          "g = (acc @ [c]) @ body @ [t]" "t \<in> set cjk_terminators"
          "\<forall>x \<in> set body. x \<notin> set cjk_terminators \<and> x \<noteq> 10"
        by blast
      then have "c # cs = (c # body) @ t # rest \<and> g = acc @ (c # body) @ [t]
          \<and> t \<in> set cjk_terminators
          \<and> (\<forall>x \<in> set (c # body). x \<notin> set cjk_terminators \<and> x \<noteq> 10)"
        using False by simp
      then show "\<exists>body t rest. c # cs = body @ t # rest \<and> g = acc @ body @ [t]
            \<and> t \<in> set cjk_terminators \<and> (\<forall>x \<in> set body. x \<notin> set cjk_terminators \<and> x \<noteq> 10)"
        by blast
    qed
    show ?thesis
      unfolding shape using False Cons.IH [of "acc @ [c]"] by simp
  qed
qed

lemma match_cjk_Some:
  "match_cjk source = Some g \<longleftrightarrow>
     (\<exists>c body t rest. source = c # body @ t # rest \<and> c \<noteq> 10 \<and> g = c # body @ [t]
        \<and> t \<in> set cjk_terminators \<and> (\<forall>x \<in> set body. x \<notin> set cjk_terminators \<and> x \<noteq> 10))"
proof (cases source)
  case Nil
  then show ?thesis by (simp add: match_cjk_def)
next
  case (Cons c cs)
  show ?thesis
  proof (cases "c = 10")
    case True
    with Cons show ?thesis by (simp add: match_cjk_def)
  next
    case False
    with Cons show ?thesis
      using cjk_lazy_Some [of "[c]" cs g] by (simp add: match_cjk_def)
  qed
qed

lemma versioned_cjk_gate:
  "length (strip ascii_only_db (takeWhile (\<lambda>c. c \<noteq> 46) versioned_cjk_text)) < 10
   \<and> 20 < length versioned_cjk_text"
  by (simp add: versioned_cjk_text_def strip_def is_space_def u_def)

lemma versioned_cjk_match:
  "match_cjk versioned_cjk_text
     = Some (u ''v1.0 '' @ [26500, 24314, 20255, 22823, 30340, 19996, 35199, 12290])"
  by (simp add: versioned_cjk_text_def match_cjk_def cjk_terminators_def u_def)

lemma versioned_cjk_strip:
  "strip ascii_only_db (u ''v1.0 '' @ [26500, 24314, 20255, 22823, 30340, 19996, 35199, 12290])
     = u ''v1.0 '' @ [26500, 24314, 20255, 22823, 30340, 19996, 35199, 12290]"
  by (simp add: strip_def is_space_def ascii_only_db_def u_def)

lemma great_things_gate:
  "\<not> (length (strip ascii_only_db
          (takeWhile (\<lambda>c. c \<noteq> 46) (u ''Build great things. More text here.''))) < 10
      \<and> 20 < length (u ''Build great things. More text here.''))"
  by (simp add: strip_def is_space_def u_def)

lemma great_things_match:
  "match_sentence (u ''Build great things. More text here.'') = Some (u ''Build great things.'')"
  by (simp add: match_sentence_def terminators_def u_def)

lemma great_things_strip:
  "strip ascii_only_db (u ''Build great things.'') = u ''Build great things.''"
  by (simp add: strip_def is_space_def u_def)

lemma exclamation_sentence: "sentence_of ascii_only_db exclamation_text = Inr (u ''Hi!'')"
  unfolding sentence_of_cases
  by (simp add: exclamation_text_def match_sentence_def terminators_def strip_def is_space_def
      u_def)

lemma exclamation_spec_sentence:
  "spec_sentence_of ascii_only_db exclamation_text = u ''Hi! This is a long description text''"
  by (simp add: spec_sentence_of_def exclamation_text_def match_cjk_def cjk_terminators_def
      strip_def is_space_def u_def)

text \<open>
  Claim C3, as amended. The test before the CJK attempt splits the source at the first
  period only (not at \<^verbatim>\<open>!\<close> or \<^verbatim>\<open>?\<close>) and trims the piece. Only when that piece is shorter
  than 10 characters while the source is longer than 20 is the CJK match used: one
  character that is no newline, then characters that are neither newlines nor CJK
  terminators, then a CJK terminator; without such a match the full trimmed source is
  used. Otherwise the first-sentence match against the Latin and CJK terminators is used.
\<close>

theorem sentence_gate_on_period:
  "(length (strip db (takeWhile (\<lambda>c. c \<noteq> 46) source)) < 10 \<and> 20 < length source
      \<longrightarrow> sentence_of db source
          = Inr (strip db (case match_cjk source of Some g \<Rightarrow> g | None \<Rightarrow> source)))
   \<and> (\<not> (length (strip db (takeWhile (\<lambda>c. c \<noteq> 46) source)) < 10 \<and> 20 < length source)
      \<longrightarrow> sentence_of db source
          = Inr (strip db (case match_sentence source of Some g \<Rightarrow> g | None \<Rightarrow> source)))
   \<and> (match_cjk source = Some g \<longleftrightarrow>
        (\<exists>c body t rest. source = c # body @ t # rest \<and> c \<noteq> 10 \<and> g = c # body @ [t]
           \<and> t \<in> set cjk_terminators
           \<and> (\<forall>x \<in> set body. x \<notin> set cjk_terminators \<and> x \<noteq> 10)))"
  using sentence_of_cases [of db source] match_cjk_Some [of source g]
  by presburger

theorem sentence_gate_on_period_witness:
  "sentence_of ascii_only_db versioned_cjk_text
     = Inr (u ''v1.0 '' @ [26500, 24314, 20255, 22823, 30340, 19996, 35199, 12290])
   \<and> sentence_of ascii_only_db (u ''Build great things. More text here.'')
     = Inr (u ''Build great things.'')"
proof -
  have "sentence_of ascii_only_db versioned_cjk_text
      = Inr (strip ascii_only_db
          (case match_cjk versioned_cjk_text of Some g \<Rightarrow> g | None \<Rightarrow> versioned_cjk_text))"
    using sentence_gate_on_period [of ascii_only_db versioned_cjk_text "[]"] versioned_cjk_gate
    by blast
  then have cjk: "sentence_of ascii_only_db versioned_cjk_text
      = Inr (u ''v1.0 '' @ [26500, 24314, 20255, 22823, 30340, 19996, 35199, 12290])"
    by (simp only: versioned_cjk_match option.case versioned_cjk_strip)
  have "sentence_of ascii_only_db (u ''Build great things. More text here.'')
      = Inr (strip ascii_only_db
          (case match_sentence (u ''Build great things. More text here.'') of
             Some g \<Rightarrow> g | None \<Rightarrow> u ''Build great things. More text here.''))"
    using sentence_gate_on_period [of ascii_only_db "u ''Build great things. More text here.''"
        "[]"] great_things_gate
    by blast
  then have "sentence_of ascii_only_db (u ''Build great things. More text here.'')
      = Inr (u ''Build great things.'')"
    by (simp only: great_things_match option.case great_things_strip)
  with cjk show ?thesis
    by blast
qed

text \<open>
  Claim C3 as stated fails: splitting \<open>Hi! This is a long description text\<close> at the first
  Latin terminator gives \<open>Hi\<close>, shorter than 10 characters, for a source longer than 20, so
  the claim has the CJK attempt made and, there being no CJK terminator, the full source
  used. The code splits at the period only, finds none, and takes the sentence \<open>Hi!\<close>.
\<close>

theorem sentence_gate_on_period_counterexample:
  "sentence_of ascii_only_db exclamation_text = Inr (u ''Hi!'')
   \<and> spec_sentence_of ascii_only_db exclamation_text = u ''Hi! This is a long description text''
   \<and> sentence_of ascii_only_db exclamation_text
       \<noteq> Inr (spec_sentence_of ascii_only_db exclamation_text)"
  unfolding exclamation_sentence exclamation_spec_sentence by (simp add: u_def)

subsection \<open>Truncation\<close>

lemma truncate_terminate:
  assumes "150 < length func"
  shows "terminate_func (truncate_func func) = take 147 func @ u ''...''"
    and "length (terminate_func (truncate_func func)) = 150"
proof -
  have t: "truncate_func func = take 147 func @ u ''...''"
    using assms by (simp add: truncate_func_def)
  have "last (take 147 func @ u ''...'') \<in> set terminators"
    by (simp add: u_def terminators_def)
  then show "terminate_func (truncate_func func) = take 147 func @ u ''...''"
    unfolding t by (simp add: terminate_func_def)
  then show "length (terminate_func (truncate_func func)) = 150"
    using assms by (simp add: u_def)
qed

lemma fallback_function_truncated:
  assumes "sentence_of db source = Inr func" and "150 < length func"
  shows "fallback_function db source = Inr (take 147 func @ u ''...'')"
  using assms truncate_terminate(1) [of func] by (simp add: fallback_function_def)

lemma strip_unchanged:
  assumes "s \<noteq> []" and "\<not> is_space db (hd s)" and "\<not> is_space db (last s)"
  shows "strip db s = s"
proof -
  have "dropWhile (is_space db) s = s"
    using assms(2) by (simp add: dropWhile_eq_self_iff)
  moreover have "dropWhile (is_space db) (rev s) = rev s"
    using assms(1,3) by (simp add: dropWhile_eq_self_iff hd_rev)
  ultimately show ?thesis
    by (simp add: strip_def)
qed

lemma sentence_of_no_terminator:
  assumes "\<forall>c \<in> set source. c \<notin> set terminators" and "10 \<le> length (strip db source)"
  shows "sentence_of db source = Inr (strip db source)"
proof -
  have ne: "source \<noteq> []"
    using assms(2) by (auto simp: strip_def)
  have "\<forall>c \<in> set source. c \<noteq> 46"
    using assms(1) by (auto simp: terminators_def)
  then have piece: "takeWhile (\<lambda>c. c \<noteq> 46) source = source"
    by (simp add: takeWhile_eq_all_conv)
  have run: "takeWhile (\<lambda>c. c \<notin> set terminators) source = source"
    using assms(1) by (simp add: takeWhile_eq_all_conv)
  have rest: "dropWhile (\<lambda>c. c \<notin> set terminators) source = []"
    using assms(1) by (simp add: dropWhile_eq_Nil_conv)
  have "match_sentence source = Some source"
    unfolding match_sentence_def Let_def run rest using ne by simp
  then show ?thesis
    unfolding sentence_of_cases piece using assms(2) by simp
qed

lemma fallback_function_no_terminator:
  assumes "\<forall>c \<in> set source. c \<notin> set terminators" and "150 < length (strip db source)"
  shows "fallback_function db source = Inr (take 147 (strip db source) @ u ''...'')"
    and "length (take 147 (strip db source) @ u ''...'') = 150"
proof -
  have "sentence_of db source = Inr (strip db source)"
    using assms by (intro sentence_of_no_terminator) simp_all
  then show "fallback_function db source = Inr (take 147 (strip db source) @ u ''...'')"
    using assms(2) by (rule fallback_function_truncated)
  show "length (take 147 (strip db source) @ u ''...'') = 150"
    using assms(2) by (simp add: u_def)
qed

lemma long_text_facts:
  "length long_text = 200" "set long_text \<inter> set terminators = {}"
  "strip ascii_only_db long_text = long_text" "take 147 long_text = replicate 147 97"
proof -
  show "length long_text = 200"
    by (simp add: long_text_def)
  show "set long_text \<inter> set terminators = {}"
    by (simp add: long_text_def terminators_def)
  have "\<not> is_space ascii_only_db 97"
    by (simp add: is_space_def)
  then show "strip ascii_only_db long_text = long_text"
    by (intro strip_unchanged) (simp_all add: long_text_def)
  show "take 147 long_text = replicate 147 97"
    by (simp add: long_text_def)
qed

lemma long_text_function:
  "fallback_function ascii_only_db long_text = Inr (replicate 147 97 @ u ''...'')"
proof -
  have "\<forall>c \<in> set long_text. c \<notin> set terminators"
    using long_text_facts(2) by blast
  moreover have "150 < length (strip ascii_only_db long_text)"
    by (simp add: long_text_facts)
  ultimately have "fallback_function ascii_only_db long_text
      = Inr (take 147 (strip ascii_only_db long_text) @ u ''...'')"
    by (rule fallback_function_no_terminator)
  then show ?thesis
    by (simp only: long_text_facts)
qed

subsection \<open>A description of 200 letters\<close>

lemma str_in_replicate: "list_ex (\<lambda>c. c \<noteq> a) k \<Longrightarrow> str_in k (replicate n a) = False"
proof -
  assume k: "list_ex (\<lambda>c. c \<noteq> a) k"
  have "set k \<subseteq> {a}" if "str_in k (replicate n a)"
  proof -
    from that have "set k \<subseteq> set (replicate n a)"
      unfolding str_in_sublist by (rule set_mono_sublist)
    then show ?thesis by auto
  qed
  with k show ?thesis
    by (auto simp: list_ex_iff)
qed

lemma startswith_replicate:
  "list_ex (\<lambda>c. c \<noteq> a) p \<Longrightarrow> startswith (replicate n a) p = False"
proof -
  assume p: "list_ex (\<lambda>c. c \<noteq> a) p"
  have "set p \<subseteq> {a}" if "startswith (replicate n a) p"
  proof -
    from that have "set p \<subseteq> set (replicate n a)"
      unfolding startswith_prefix by (rule set_mono_prefix)
    then show ?thesis by auto
  qed
  with p show ?thesis
    by (auto simp: list_ex_iff)
qed

lemma lower_from_replicate: "lower_from db pre (replicate n 97) = replicate n 97"
  by (induction n arbitrary: pre) (simp_all add: lower_cp_def)

lemma match_alt_replicate:
  "list_ex (\<lambda>x. x \<noteq> 46 \<and> x \<noteq> a) alt \<Longrightarrow> match_alt alt prev (replicate n a) = None"
proof (induction alt arbitrary: prev n)
  case Nil
  then show ?case by simp
next
  case (Cons x xs)
  show ?case
  proof (cases n)
    case 0
    then show ?thesis by simp
  next
    case (Suc n')
    show ?thesis
    proof (cases "x \<noteq> 46 \<and> x \<noteq> a")
      case True
      then show ?thesis by (simp add: Suc atom_ok_def)
    next
      case False
      with Cons.prems have "list_ex (\<lambda>x. x \<noteq> 46 \<and> x \<noteq> a) xs"
        by auto
      then have "match_alt xs (Some a) (replicate n' a) = None"
        by (rule Cons.IH)
      then show ?thesis by (simp add: Suc)
    qed
  qed
qed

lemma match_here_replicate:
  "list_ex (\<lambda>x. x \<noteq> 46 \<and> x \<noteq> a) alt \<Longrightarrow> match_here db alt prev (replicate n a) = False"
  by (simp add: match_here_def match_alt_replicate)

lemma list_ex_match_here_replicate:
  assumes "list_all (list_ex (\<lambda>x. x \<noteq> 46 \<and> x \<noteq> a)) alts"
  shows "list_ex (\<lambda>alt. match_here db alt prev (replicate n a)) alts = False"
  using assms by (auto simp: list_ex_iff list_all_iff match_here_replicate)

lemma search_from_replicate:
  assumes "list_all (list_ex (\<lambda>x. x \<noteq> 46 \<and> x \<noteq> a)) alts"
  shows "search_from db alts prev (replicate n a) = False"
proof (induction n arbitrary: prev)
  case 0
  show ?case
    using list_ex_match_here_replicate [OF assms, of db prev 0] by simp
next
  case (Suc n)
  show ?case
    using list_ex_match_here_replicate [OF assms, of db prev "Suc n"] Suc.IH [of "Some a"]
    by simp
qed

lemma long_combined: "combined_text db long_record = long_text"
  by (simp add: combined_text_def collect_def long_record_def get_default_def append_if_def
      long_text_def py_lower_def lower_from_replicate)

lemma long_integration: "detect_integration ascii_only_db long_text nm (u ''x/y'') = None"
  by (simp add: detect_integration_def integrations_def generic_integration_def long_text_def
      str_in_replicate startswith_replicate text_simps)

lemma long_tags: "detect_tags db long_text nm = {}"
  by (simp add: detect_tags_def tag_patterns_def tag_step_def re_search_def long_text_def
      search_from_replicate u_def)

lemma long_content: "content_pair long_text = None"
  by (simp add: content_pair_def long_text_def str_in_replicate u_def)

lemma long_late: "late_pair long_text = None"
  by (simp add: late_pair_def long_text_def str_in_replicate u_def)

lemma long_value:
  "fallback_value long_text = u ''Streamline development workflows and reduce manual effort.''"
  by (simp add: fallback_value_def long_text_def str_in_replicate u_def)

lemma long_generate:
  "generate_descriptions ascii_only_db long_record long_text None tg =
     Inr (Some (replicate 147 97 @ u ''...''),
          Some (u ''Streamline development workflows and reduce manual effort.''))"
proof -
  have "get_default (m_description long_record) [] = Some long_text"
    by (simp add: long_record_def get_default_def)
  moreover have "truthy (Some long_text)"
    by (simp add: truthy_def long_text_def)
  moreover have "\<not> truthy None"
    by (simp add: truthy_def)
  ultimately show ?thesis
    by (simp add: generate_descriptions_def long_content long_late long_value long_text_function)
qed

lemma long_run: "analyze_marketplace ascii_only_db long_record idx = Inr long_result"
proof -
  have repo: "m_repo long_record = u ''x/y''"
    by (simp add: long_record_def)
  show ?thesis
    unfolding analyze_marketplace_def Let_def long_combined repo long_integration long_tags
      long_generate
    by (simp add: tags_output_def long_result_def)
qed

text \<open>
  Claim C2, as amended. In the default branch, a sentence of more than 150 characters is cut
  to its first 147 characters and three full stops are appended; the function string then
  has length exactly 150 and receives no further period. In particular this holds for every
  description of 200 characters without sentence terminator whose trimmed text is longer
  than 150 characters.
\<close>

theorem truncation_to_150:
  "(150 < length func
      \<longrightarrow> terminate_func (truncate_func func) = take 147 func @ u ''...''
          \<and> length (terminate_func (truncate_func func)) = 150)
   \<and> (sentence_of db source = Inr func \<and> 150 < length func
      \<longrightarrow> fallback_function db source = Inr (take 147 func @ u ''...''))
   \<and> (length source = 200 \<and> (\<forall>c \<in> set source. c \<notin> set terminators)
        \<and> 150 < length (strip db source)
      \<longrightarrow> fallback_function db source = Inr (take 147 (strip db source) @ u ''...'')
          \<and> length (take 147 (strip db source) @ u ''...'') = 150)"
  using truncate_terminate [of func] fallback_function_truncated [of db source func]
    fallback_function_no_terminator [of source db]
  by blast

theorem truncation_to_150_witness:
  "length long_text = 200
   \<and> terminate_func (truncate_func long_text) = replicate 147 97 @ u ''...''
   \<and> sentence_of ascii_only_db long_text = Inr long_text
   \<and> fallback_function ascii_only_db long_text = Inr (replicate 147 97 @ u ''...'')
   \<and> length (replicate 147 97 @ u ''...'') = 150"
proof -
  note inst = truncation_to_150 [of long_text ascii_only_db long_text]
  have no_term: "\<forall>c \<in> set long_text. c \<notin> set terminators"
    using long_text_facts(2) by blast
  have long: "150 < length long_text" "150 < length (strip ascii_only_db long_text)"
    by (simp_all add: long_text_facts)
  have sentence: "sentence_of ascii_only_db long_text = Inr long_text"
    using sentence_of_no_terminator [OF no_term, of ascii_only_db]
    by (simp add: long_text_facts)
  have "terminate_func (truncate_func long_text) = take 147 long_text @ u ''...''"
    using inst long(1) by blast
  moreover have "fallback_function ascii_only_db long_text
        = Inr (take 147 long_text @ u ''...'')"
    using inst sentence long(1) by blast
  moreover have "fallback_function ascii_only_db long_text
        = Inr (take 147 (strip ascii_only_db long_text) @ u ''...'')
      \<and> length (take 147 (strip ascii_only_db long_text) @ u ''...'') = 150"
    using inst no_term long(2) long_text_facts(1) by blast
  ultimately show ?thesis
    using sentence by (simp only: long_text_facts)
qed

text \<open>
  Claim C2 as stated fails: a description of 200 letters, without sentence terminator,
  reaches the default branch and gets a function string of length 150, not 148.
\<close>

theorem truncation_to_150_counterexample:
  "length long_text = 200
   \<and> set long_text \<inter> set terminators = {}
   \<and> fallback_function ascii_only_db long_text = Inr (replicate 147 97 @ u ''...'')
   \<and> analyze_marketplace ascii_only_db long_record 651 = Inr long_result
   \<and> r_function long_result = Some (replicate 147 97 @ u ''...'')
   \<and> length (replicate 147 97 @ u ''...'') = 150
   \<and> length (replicate 147 97 @ u ''...'') \<noteq> 148"
  using long_text_facts(1,2) long_text_function long_run [of 651]
  by (simp add: long_result_def u_def)

section \<open>The description generator\<close>

lemma fallback_function_total:
  "fallback_function db source
     = Inr (terminate_func (truncate_func (strip db
         (if length (strip db (takeWhile (\<lambda>c. c \<noteq> 46) source)) < 10 \<and> 20 < length source
          then (case match_cjk source of Some g \<Rightarrow> g | None \<Rightarrow> source)
          else (case match_sentence source of Some g \<Rightarrow> g | None \<Rightarrow> source)))))"
  by (simp only: fallback_function_def sentence_of_cases sum.case)

lemma generate_descriptions_with_text:
  assumes "truthy (get_default (m_description m) []) \<or> truthy (first_plugin_desc (m_plugins m))"
  shows "\<exists>f v. generate_descriptions db m combined integration tags = Inr (Some f, Some v)"
proof -
  let ?desc = "get_default (m_description m) []"
  let ?source = "if truthy ?desc then ?desc else first_plugin_desc (m_plugins m)"
  have src: "truthy ?source"
    using assms by auto
  obtain func where func: "fallback_function db (the ?source) = Inr func"
    using fallback_function_total by blast
  have outer: "(\<not> truthy ?desc \<and> \<not> truthy (first_plugin_desc (m_plugins m))) = False"
    using assms by blast
  show ?thesis
  proof (cases "content_pair combined")
    case (Some fv)
    then show ?thesis
      unfolding generate_descriptions_def Let_def outer if_False
      by (cases fv) simp
  next
    case None
    show ?thesis
    proof (cases "truthy integration")
      case True
      then show ?thesis
        unfolding generate_descriptions_def Let_def outer if_False None
        by (cases "integration_pair (the integration)") simp
    next
      case False
      show ?thesis
      proof (cases "late_pair combined")
        case (Some fv)
        then show ?thesis
          unfolding generate_descriptions_def Let_def outer if_False None
          using False by (cases fv) simp
      next
        case late: None
        show ?thesis
          unfolding generate_descriptions_def Let_def outer if_False None late
          using False src func by simp
      qed
    qed
  qed
qed

lemma those_None_iff: "those xs = None \<longleftrightarrow> None \<in> set xs"
  by (induction xs) (auto split: option.splits)

lemma guess_from_names_error:
  "guess_from_names db m = Inl e \<longleftrightarrow> e = TypeError \<and> (\<exists>p \<in> set (m_plugins m). p_name p = Null)"
proof -
  have null: "get_default f [] = None \<longleftrightarrow> f = Null" for f
    by (cases f) (simp_all add: get_default_def)
  have "those (map (\<lambda>p. get_default (p_name p) []) (m_plugins m)) = None
      \<longleftrightarrow> (\<exists>p \<in> set (m_plugins m). p_name p = Null)"
    unfolding those_None_iff by (auto simp: null image_iff eq_commute [of None])
  then show ?thesis
    by (cases "those (map (\<lambda>p. get_default (p_name p) []) (m_plugins m))")
      (auto simp: guess_from_names_def Let_def py_join_def)
qed

lemma guess_from_names_pair:
  "guess_from_names db m = Inr (f, v) \<Longrightarrow> (f = None \<longleftrightarrow> v = None)"
  by (cases "those (map (\<lambda>p. get_default (p_name p) []) (m_plugins m))")
    (auto simp: guess_from_names_def Let_def py_join_def split: if_splits)

text \<open>
  The generator fails on exactly one kind of record: no truthy description on the record or
  on any plugin, and a plugin whose name is \<^verbatim>\<open>null\<close>. Otherwise it returns a pair whose
  components are both absent or both present.
\<close>

lemma generate_descriptions_error:
  "generate_descriptions db m combined integration tags = Inl e \<longleftrightarrow>
     e = TypeError \<and> \<not> truthy (get_default (m_description m) [])
     \<and> \<not> truthy (first_plugin_desc (m_plugins m))
     \<and> (\<exists>p \<in> set (m_plugins m). p_name p = Null)"
proof (cases "truthy (get_default (m_description m) []) \<or> truthy (first_plugin_desc (m_plugins m))")
  case True
  then obtain f v where "generate_descriptions db m combined integration tags = Inr (Some f, Some v)"
    using generate_descriptions_with_text by blast
  with True show ?thesis by auto
next
  case False
  then have "generate_descriptions db m combined integration tags = guess_from_names db m"
    by (simp add: generate_descriptions_def)
  with False show ?thesis
    by (simp add: guess_from_names_error)
qed

lemma generate_descriptions_pair:
  assumes "generate_descriptions db m combined integration tags = Inr (f, v)"
  shows "f = None \<longleftrightarrow> v = None"
proof (cases "truthy (get_default (m_description m) []) \<or> truthy (first_plugin_desc (m_plugins m))")
  case True
  then obtain f' v' where
    "generate_descriptions db m combined integration tags = Inr (Some f', Some v')"
    using generate_descriptions_with_text by blast
  with assms show ?thesis by auto
next
  case False
  then have "generate_descriptions db m combined integration tags = guess_from_names db m"
    by (simp add: generate_descriptions_def)
  with assms show ?thesis
    using guess_from_names_pair by simp
qed

lemma generate_descriptions_none:
  "generate_descriptions db m combined integration tags = Inr (None, None) \<longleftrightarrow>
     \<not> truthy (get_default (m_description m) []) \<and> \<not> truthy (first_plugin_desc (m_plugins m))
     \<and> guess_from_names db m = Inr (None, None)"
proof (cases "truthy (get_default (m_description m) []) \<or> truthy (first_plugin_desc (m_plugins m))")
  case True
  then obtain f' v' where
    "generate_descriptions db m combined integration tags = Inr (Some f', Some v')"
    using generate_descriptions_with_text by blast
  with True show ?thesis by auto
next
  case False
  then have "generate_descriptions db m combined integration tags = guess_from_names db m"
    by (simp add: generate_descriptions_def)
  with False show ?thesis by simp
qed

text \<open>Without \<^verbatim>\<open>null\<close> names, the branch for records without description is the three
  name rules over the lower-cased, space-joined plugin names (a missing name counts as the
  empty string).\<close>

lemma guess_from_names_rules:
  assumes "\<forall>p \<in> set (m_plugins m). p_name p \<noteq> Null"
  shows "guess_from_names db m =
     Inr (if m_plugins m = [] then (None, None)
          else
            let names_combined = py_lower db (join (u '' '')
                  (map (\<lambda>p. case p_name p of Str s \<Rightarrow> s | _ \<Rightarrow> []) (m_plugins m)))
            in if str_in (u ''git'') names_combined \<or> str_in (u ''commit'') names_combined
               then (Some (u ''Automate git workflows including commits, branches, and pull requests.''),
                     Some (u ''Streamline version control with consistent, well-formatted commits.''))
               else if str_in (u ''review'') names_combined
               then (Some (u ''Review code changes and provide feedback.''),
                     Some (u ''Catch issues early with automated code review.''))
               else if str_in (u ''test'') names_combined
               then (Some (u ''Generate and run tests for code.''),
                     Some (u ''Ensure code quality with comprehensive test coverage.''))
               else (None, None))"
proof -
  have "those (map (\<lambda>p. get_default (p_name p) []) ps)
      = Some (map (\<lambda>p. case p_name p of Str s \<Rightarrow> s | _ \<Rightarrow> []) ps)"
    if "\<forall>p \<in> set ps. p_name p \<noteq> Null" for ps :: "plugin list"
    using that
  proof (induction ps)
    case Nil
    show ?case by simp
  next
    case (Cons p ps)
    then show ?case
      by (cases "p_name p") (simp_all add: get_default_def)
  qed
  with assms show ?thesis
    by (simp add: guess_from_names_def Let_def py_join_def)
qed

subsection \<open>Records without description\<close>

lemma commit_helper_pair:
  "generate_descriptions db commit_helper_record combined integration tags =
     Inr (Some (u ''Automate git workflows including commits, branches, and pull requests.''),
          Some (u ''Streamline version control with consistent, well-formatted commits.''))"
  by (simp add: generate_descriptions_def guess_from_names_def py_join_def commit_helper_record_def
      get_default_def get_def truthy_def text_simps)

lemma null_and_commit_raises:
  "generate_descriptions db null_and_commit_record combined integration tags = Inl TypeError"
  by (simp add: generate_descriptions_def guess_from_names_def py_join_def
      null_and_commit_record_def get_default_def get_def truthy_def)

text \<open>
  Claim C7 holds for records whose plugin names are strings or missing
  (\<open>guess_from_names_rules\<close>), as for the plugin names \<open>commit-helper\<close>. On a record without
  description in which a plugin has the name \<^verbatim>\<open>null\<close>, the join of the plugin names
  raises \<^verbatim>\<open>TypeError\<close> before any of the three name rules is applied.
\<close>

theorem name_rules_fail_on_null_name:
  "generate_descriptions db commit_helper_record combined integration tags =
     Inr (Some (u ''Automate git workflows including commits, branches, and pull requests.''),
          Some (u ''Streamline version control with consistent, well-formatted commits.''))
   \<and> generate_descriptions db null_and_commit_record combined integration tags = Inl TypeError"
  using commit_helper_pair [of db combined integration tags]
    null_and_commit_raises [of db combined integration tags]
  by (rule conjI)

lemma null_name_generate:
  "generate_descriptions db null_name_record combined integration tags = Inl TypeError"
  by (simp add: generate_descriptions_def guess_from_names_def py_join_def
      null_name_record_def get_default_def get_def truthy_def)

text \<open>
  Claim C8 fails on a record without description whose only plugin has the name \<^verbatim>\<open>null\<close>:
  the transform raises \<^verbatim>\<open>TypeError\<close>. In all other cases the pair is returned, with both
  components absent or both present (\<open>generate_descriptions_error\<close>,
  \<open>generate_descriptions_pair\<close>, \<open>generate_descriptions_none\<close>).
\<close>

theorem null_plugin_name_raises:
  "analyze_marketplace db null_name_record idx = Inl TypeError"
proof -
  have "generate_descriptions db null_name_record combined integration tags = Inl TypeError"
    for combined integration tags
    by (rule null_name_generate)
  then show ?thesis
    unfolding analyze_marketplace_def Let_def by simp
qed

end
